theory Spec2Isabelle
  imports Complex_Main
begin

section \<open>The path finding node of the socially aware walker\<close>

text \<open>
  A shallow embedding of \<^verbatim>\<open>path_finding_node.cpp\<close> (class \<^verbatim>\<open>AstarPathfindingNode\<close>).
  C++ \<^verbatim>\<open>double\<close> values are modelled as real numbers and C++ \<^verbatim>\<open>int\<close> values as unbounded
  integers, but for the scores of the radial search, where the floating point unit decides the
  result: a score is rounded by the machine (\<open>fl_score\<close>), and the quotient by a distance to
  the goal of zero gives a score that is not a number (\<open>NotFinite\<close>). The source also divides by
  the map resolution; that quotient has no counterpart in the reals when the resolution is zero,
  so every theorem about a map asks for a well-formed map (\<open>grid_ok\<close>: positive resolution, as
  many cells as width times height).
\<close>

subsection \<open>C++ arithmetic\<close>

text \<open>Integer division and remainder truncate toward zero; the remainder has the sign of
  the dividend.\<close>

definition c_div :: "int \<Rightarrow> int \<Rightarrow> int" where
  "c_div a b = sgn a * sgn b * (\<bar>a\<bar> div \<bar>b\<bar>)"

definition c_rem :: "int \<Rightarrow> int \<Rightarrow> int" where
  "c_rem a b = sgn a * (\<bar>a\<bar> mod \<bar>b\<bar>)"

text \<open>The conversion \<^verbatim>\<open>int(x)\<close> of a double truncates toward zero.\<close>

definition c_int :: "real \<Rightarrow> int" where
  "c_int v = (if 0 \<le> v then \<lfloor>v\<rfloor> else \<lceil>v\<rceil>)"

text \<open>\<^verbatim>\<open>std::round\<close> rounds to the nearest integer, halfway cases away from zero.\<close>

definition c_round :: "real \<Rightarrow> int" where
  "c_round v = (if 0 \<le> v then \<lfloor>v + 1 / 2\<rfloor> else \<lceil>v - 1 / 2\<rceil>)"

definition hypot :: "real \<Rightarrow> real \<Rightarrow> real" where
  "hypot a b = sqrt (a\<^sup>2 + b\<^sup>2)"

subsection \<open>Points and rigid transforms\<close>

text \<open>\<^verbatim>\<open>tf::Vector3\<close> and \<^verbatim>\<open>geometry_msgs::Point\<close> are triples of doubles; a
  \<^verbatim>\<open>tf::Transform\<close> is a basis matrix (three rows) with an origin. Applying a transform and
  inverting it are the operations of the tf library: \<^verbatim>\<open>basis * v + origin\<close>, and the
  transposed basis with the origin mapped back.\<close>

type_synonym vec3 = "real \<times> real \<times> real"

type_synonym mat3 = "vec3 \<times> vec3 \<times> vec3"

definition getX :: "vec3 \<Rightarrow> real" where
  "getX v = fst v"

definition getY :: "vec3 \<Rightarrow> real" where
  "getY v = fst (snd v)"

definition getZ :: "vec3 \<Rightarrow> real" where
  "getZ v = snd (snd v)"

definition dot :: "vec3 \<Rightarrow> vec3 \<Rightarrow> real" where
  "dot a b = getX a * getX b + getY a * getY b + getZ a * getZ b"

definition mat_vec :: "mat3 \<Rightarrow> vec3 \<Rightarrow> vec3" where
  "mat_vec M v = (case M of (r0, r1, r2) \<Rightarrow> (dot r0 v, dot r1 v, dot r2 v))"

definition transpose3 :: "mat3 \<Rightarrow> mat3" where
  "transpose3 M = (case M of (r0, r1, r2) \<Rightarrow>
     ((getX r0, getX r1, getX r2), (getY r0, getY r1, getY r2), (getZ r0, getZ r1, getZ r2)))"

definition vec_add :: "vec3 \<Rightarrow> vec3 \<Rightarrow> vec3" where
  "vec_add a b = (getX a + getX b, getY a + getY b, getZ a + getZ b)"

definition vec_neg :: "vec3 \<Rightarrow> vec3" where
  "vec_neg a = (- getX a, - getY a, - getZ a)"

record transform =
  getBasis :: mat3
  getOrigin :: vec3

definition tf_apply :: "transform \<Rightarrow> vec3 \<Rightarrow> vec3" where
  "tf_apply t v = vec_add (mat_vec (getBasis t) v) (getOrigin t)"

definition tf_inverse :: "transform \<Rightarrow> transform" where
  "tf_inverse t = (let inv = transpose3 (getBasis t)
     in \<lparr>getBasis = inv, getOrigin = mat_vec inv (vec_neg (getOrigin t))\<rparr>)"

subsection \<open>The local cost map\<close>

text \<open>A \<^verbatim>\<open>nav_msgs::OccupancyGrid\<close>: the fields are named after the local variables the
  source copies them into. The cell array is row-major, one signed byte per cell.\<close>

record occupancy_grid =
  map_resolution :: real
  map_origin_x :: real
  map_origin_y :: real
  map_width :: nat
  map_height :: nat
  map_data :: "int list"

text \<open>A grid message is well formed when its resolution is positive and its cell array has
  \<open>width * height\<close> entries.\<close>

definition grid_ok :: "occupancy_grid \<Rightarrow> bool" where
  "grid_ok m = (0 < map_resolution m \<and> length (map_data m) = map_width m * map_height m)"

text \<open>What the program leaves to the machine it runs on, a parameter of every operation.

  Reading a \<^verbatim>\<open>std::vector\<close> with \<^verbatim>\<open>operator[]\<close> outside its range is undefined
  behaviour. The model makes such a read explicit: it returns what the memory beyond the array
  holds (\<open>cell_beyond\<close>, \<open>pose_beyond\<close>), an arbitrary function. No theorem below assumes
  anything about it.

  The scores of the radial search are compared with each other, so their rounding matters:
  two candidates whose exact scores are equal need not get equal doubles. \<open>fl_score mem i j v\<close>
  is the double the floating point unit delivers for the candidate \<open>(i, j)\<close> where exact
  arithmetic gives the score \<open>v\<close>; it is arbitrary too, and a theorem that depends on the
  value of a score says how far from \<open>v\<close> it may be. Where the quotient overflows and the
  double is minus infinity, any value that is not positive stands for it: the search compares a
  score only with a running maximum that starts at 0.\<close>

record machine =
  cell_beyond :: "int \<Rightarrow> int"
  pose_beyond :: "int \<Rightarrow> vec3"
  fl_score :: "int \<Rightarrow> int \<Rightarrow> real \<Rightarrow> real"

definition data_at :: "machine \<Rightarrow> occupancy_grid \<Rightarrow> int \<Rightarrow> int" where
  "data_at mem m idx =
     (if 0 \<le> idx \<and> idx < int (length (map_data m)) then map_data m ! nat idx
      else cell_beyond mem idx)"

subsection \<open>Local cost over a square window\<close>

text \<open>\<^verbatim>\<open>kernel_size = int(std::floor(radius / map_resolution))\<close>, made odd, and
  \<^verbatim>\<open>bound = kernel_size / 2\<close>.\<close>

definition kernel_size :: "real \<Rightarrow> occupancy_grid \<Rightarrow> int" where
  "kernel_size radius m = (let k = \<lfloor>radius / map_resolution m\<rfloor>
     in k + (if c_rem k 2 = 0 then 1 else 0))"

definition kernel_bound :: "real \<Rightarrow> occupancy_grid \<Rightarrow> int" where
  "kernel_bound radius m = c_div (kernel_size radius m) 2"

text \<open>The pairs \<open>(y, x)\<close> in the order in which the nested \<^verbatim>\<open>for\<close> statements visit them.\<close>

definition window_offsets :: "int \<Rightarrow> (int \<times> int) list" where
  "window_offsets bound = List.product [- bound..bound] [- bound..bound]"

text \<open>One pass through the loop body. The state is the running cost together with the list
  of the indices at which \<^verbatim>\<open>localmap_ptr->data\<close> has been read so far; both
  \<^verbatim>\<open>continue\<close> statements leave it as it is.\<close>

definition max_cost_step ::
  "machine \<Rightarrow> occupancy_grid \<Rightarrow> int \<Rightarrow> int \<Rightarrow> int \<times> int list \<Rightarrow> int \<times> int \<Rightarrow> int \<times> int list" where
  "max_cost_step mem m target_idx bound acc yx =
     (case acc of (cost, reads) \<Rightarrow> case yx of (y, x) \<Rightarrow>
        let w = int (map_width m);
            max_map_idx = w * int (map_height m) - 1;
            op_idx = target_idx + x + w * y
        in if op_idx < 0 \<or> op_idx > max_map_idx then (cost, reads)
           else if \<bar>c_rem op_idx w - c_rem target_idx w\<bar> > bound then (cost, reads)
           else (if data_at mem m op_idx > cost then data_at mem m op_idx else cost,
                 reads @ [op_idx]))"

definition scan_max_cost :: "machine \<Rightarrow> occupancy_grid \<Rightarrow> int \<Rightarrow> int \<times> int list" where
  "scan_max_cost mem m target_idx =
     (let bound = kernel_bound 0.6 m
      in foldl (max_cost_step mem m target_idx bound) (0, []) (window_offsets bound))"

definition get_local_max_cost :: "machine \<Rightarrow> occupancy_grid \<Rightarrow> int \<Rightarrow> int" where
  "get_local_max_cost mem m target_idx = fst (scan_max_cost mem m target_idx)"

definition max_cost_reads :: "machine \<Rightarrow> occupancy_grid \<Rightarrow> int \<Rightarrow> int list" where
  "max_cost_reads mem m target_idx = snd (scan_max_cost mem m target_idx)"

definition avg_cost_step ::
  "machine \<Rightarrow> occupancy_grid \<Rightarrow> int \<Rightarrow> int \<Rightarrow> int \<times> int list \<Rightarrow> int \<times> int \<Rightarrow> int \<times> int list" where
  "avg_cost_step mem m target_idx bound acc yx =
     (case acc of (cost, reads) \<Rightarrow> case yx of (y, x) \<Rightarrow>
        let w = int (map_width m);
            max_map_idx = w * int (map_height m) - 1;
            op_idx = target_idx + x + w * y
        in if op_idx < 0 \<or> op_idx > max_map_idx then (cost, reads)
           else if \<bar>c_rem op_idx w - c_rem target_idx w\<bar> > bound then (cost, reads)
           else (cost + data_at mem m op_idx, reads @ [op_idx]))"

definition scan_avg_cost :: "machine \<Rightarrow> occupancy_grid \<Rightarrow> int \<Rightarrow> int \<times> int list" where
  "scan_avg_cost mem m target_idx =
     (let bound = kernel_bound 1.0 m
      in foldl (avg_cost_step mem m target_idx bound) (0, []) (window_offsets bound))"

definition get_local_avg_cost :: "machine \<Rightarrow> occupancy_grid \<Rightarrow> int \<Rightarrow> int" where
  "get_local_avg_cost mem m target_idx =
     c_div (fst (scan_avg_cost mem m target_idx)) (kernel_size 1.0 m * kernel_size 1.0 m)"

definition avg_cost_reads :: "machine \<Rightarrow> occupancy_grid \<Rightarrow> int \<Rightarrow> int list" where
  "avg_cost_reads mem m target_idx = snd (scan_avg_cost mem m target_idx)"

text \<open>The column of a linear index, as the source computes it: \<^verbatim>\<open>idx % map_width\<close>.\<close>

definition column_of :: "occupancy_grid \<Rightarrow> int \<Rightarrow> int" where
  "column_of m idx = c_rem idx (int (map_width m))"

subsection \<open>Paths and the safety predicates\<close>

definition kMaxLateralDisRobot2TrackedPt :: real where
  "kMaxLateralDisRobot2TrackedPt = 0.6"

definition kThresPercentageOfArrival :: real where
  "kThresPercentageOfArrival = 0.7"

definition kThresObstacleDangerCost :: int where
  "kThresObstacleDangerCost = 80"

text \<open>A \<^verbatim>\<open>nav_msgs::Path\<close>: the stamp in nanoseconds, the frame and the positions of the
  poses. A \<^verbatim>\<open>nav_msgs::Path::Ptr\<close> is a \<open>path option\<close>, the null pointer being \<open>None\<close>.\<close>

record path =
  stamp :: int
  frame_id :: string
  poses :: "vec3 list"

definition pose_at :: "machine \<Rightarrow> vec3 list \<Rightarrow> int \<Rightarrow> vec3" where
  "pose_at mem ps idx =
     (if 0 \<le> idx \<and> idx < int (length ps) then ps ! nat idx else pose_beyond mem idx)"

text \<open>The grid index of a point of the robot frame:
  \<^verbatim>\<open>map_x = std::round((x - map_origin_x) / map_resolution)\<close>, the same for \<^verbatim>\<open>map_y\<close>, and
  \<^verbatim>\<open>idx = map_y * map_width + map_x\<close>.\<close>

definition cell_index :: "occupancy_grid \<Rightarrow> vec3 \<Rightarrow> int" where
  "cell_index m v =
     (let map_x = c_round ((getX v - map_origin_x m) / map_resolution m);
          map_y = c_round ((getY v - map_origin_y m) / map_resolution m)
      in map_y * int (map_width m) + map_x)"

text \<open>The test the path predicates and the recovery share:
  \<^verbatim>\<open>get_local_max_cost(map, idx) >= kThresObstacleDangerCost || map->data[idx] < 0\<close>.\<close>

definition cell_unsafe :: "machine \<Rightarrow> occupancy_grid \<Rightarrow> int \<Rightarrow> bool" where
  "cell_unsafe mem m idx =
     (get_local_max_cost mem m idx \<ge> kThresObstacleDangerCost \<or> data_at mem m idx < 0)"

fun footprint_loop :: "machine \<Rightarrow> occupancy_grid \<Rightarrow> (int \<times> int) list \<Rightarrow> bool" where
  "footprint_loop mem m [] = True"
| "footprint_loop mem m (c # cs) =
     (let idx = snd c * int (map_width m) + fst c
      in if data_at mem m idx \<ge> kThresObstacleDangerCost \<or> data_at mem m idx < 0 then False
         else footprint_loop mem m cs)"

text \<open>\<^verbatim>\<open>localmap_utils::GetFootprintCells\<close> is not part of the sources at hand: the cells it
  returns for the footprint are a parameter.\<close>

definition is_footprint_safe :: "machine \<Rightarrow> occupancy_grid \<Rightarrow> (int \<times> int) list \<Rightarrow> bool" where
  "is_footprint_safe mem m footprint_cells = footprint_loop mem m footprint_cells"

definition tracked_index :: "nat \<Rightarrow> real \<Rightarrow> int" where
  "tracked_index path_length tracking_progress_percentage =
     c_int (real path_length * (0.99 - tracking_progress_percentage))"

definition is_robot_following_path ::
  "machine \<Rightarrow> path option \<Rightarrow> real \<Rightarrow> transform \<Rightarrow> bool" where
  "is_robot_following_path mem path_ptr tracking_progress_percentage tf_odom2base =
     (case path_ptr of None \<Rightarrow> False
      | Some p \<Rightarrow>
          if length (poses p) < 1 then False
          else let target_idx = tracked_index (length (poses p)) tracking_progress_percentage;
                   tracking_pt_odomframe = pose_at mem (poses p) target_idx;
                   tracking_pt_baseframe = tf_apply tf_odom2base tracking_pt_odomframe
               in if \<bar>getY tracking_pt_baseframe\<bar> \<ge> kMaxLateralDisRobot2TrackedPt then False
                  else True)"

fun approach_loop :: "machine \<Rightarrow> occupancy_grid \<Rightarrow> transform \<Rightarrow> vec3 list \<Rightarrow> vec3" where
  "approach_loop mem m tf_odom2base [] = (0, 0, 0)"
| "approach_loop mem m tf_odom2base (p # ps) =
     (let vec_base_frame = tf_apply tf_odom2base p;
          idx = cell_index m vec_base_frame
      in if get_local_max_cost mem m idx \<ge> kThresObstacleDangerCost \<or> data_at mem m idx < 0
         then approach_loop mem m tf_odom2base ps
         else vec_base_frame)"

definition approach_unsafe_subgoal ::
  "machine \<Rightarrow> occupancy_grid \<Rightarrow> path option \<Rightarrow> transform \<Rightarrow> vec3" where
  "approach_unsafe_subgoal mem m path_ptr tf_odom2base =
     (case path_ptr of None \<Rightarrow> (0, 0, 0)
      | Some p \<Rightarrow>
          if length (poses p) = 0 then (0, 0, 0)
          else approach_loop mem m tf_odom2base (poses p))"

definition is_subgoal_safe ::
  "machine \<Rightarrow> occupancy_grid \<Rightarrow> path option \<Rightarrow> transform \<Rightarrow> bool" where
  "is_subgoal_safe mem m path_ptr tf_odom2base =
     (case path_ptr of None \<Rightarrow> False
      | Some p \<Rightarrow>
          if length (poses p) = 0 then False
          else let vec_transformed = tf_apply tf_odom2base (pose_at mem (poses p) 0);
                   idx = cell_index m vec_transformed
               in if get_local_max_cost mem m idx \<ge> kThresObstacleDangerCost \<or> data_at mem m idx < 0
                  then False else True)"

fun path_safe_loop :: "machine \<Rightarrow> occupancy_grid \<Rightarrow> transform \<Rightarrow> vec3 list \<Rightarrow> bool" where
  "path_safe_loop mem m tf_odom2base [] = True"
| "path_safe_loop mem m tf_odom2base (p # ps) =
     (let vec_transformed = tf_apply tf_odom2base p;
          idx = cell_index m vec_transformed
      in if get_local_max_cost mem m idx \<ge> kThresObstacleDangerCost \<or> data_at mem m idx < 0
         then False
         else path_safe_loop mem m tf_odom2base ps)"

definition is_path_safe ::
  "machine \<Rightarrow> occupancy_grid \<Rightarrow> path option \<Rightarrow> transform \<Rightarrow> bool" where
  "is_path_safe mem m path_ptr tf_odom2base =
     (case path_ptr of None \<Rightarrow> False
      | Some p \<Rightarrow>
          if length (poses p) = 0 then False
          else path_safe_loop mem m tf_odom2base (poses p))"

text \<open>\<^verbatim>\<open>ros::Time::now()\<close> is a parameter, in nanoseconds like the stamp.\<close>

definition is_path_deprecated :: "int \<Rightarrow> path option \<Rightarrow> bool" where
  "is_path_deprecated now path_ptr =
     (case path_ptr of None \<Rightarrow> True
      | Some p \<Rightarrow>
          if length (poses p) = 0 then True
          else if now - stamp p > 5000000000 then True else False)"

subsection \<open>The state of the node\<close>

text \<open>The markers the node publishes on \<^verbatim>\<open>path_vis\<close>: the score label of one ray (its id, the
  score it prints, its position), the line list of all rays, and the chosen subgoal.\<close>

datatype marker =
  CandidateScore int real vec3
  | CandidateLines "vec3 list"
  | SubgoalMarker vec3

text \<open>The members of \<^verbatim>\<open>AstarPathfindingNode\<close> the decision cycle reads or writes. What the
  node publishes is appended to one log per publisher; \<open>solver_calls\<close> logs each call of
  \<^verbatim>\<open>path_solver_.FindPathByHashmap\<close> with its origin and target index.\<close>

record node_state =
  localmap_ptr :: "occupancy_grid option"
  walkable_path_ptr :: "path option"
  footprint_ptr :: "(real \<times> real) list option"
  finalgoal_ptr :: "vec3 option"
  path_frame_id :: string
  mkr_subgoal_candidate_points :: "vec3 list"
  mrk_subgoal_position :: vec3
  solver_timeout_ms :: real
  flag_planning_busy :: bool
  tracking_progress_percentage :: real
  path_start_offsetx :: real
  path_start_offsety :: real
  pub_walkable_path :: "path list"
  pub_marker_array :: "marker list list"
  pub_marker_status :: "string list"
  solver_calls :: "(int \<times> int) list"

text \<open>What one run of a callback gets from outside the class: the transform the listener
  returns, the clock, the footprint cells of \<^verbatim>\<open>localmap_utils::GetFootprintCells\<close>, the
  answer of the grid solver (success flag and the poses it leaves in the path), and the memory
  beyond the arrays.\<close>

record environment =
  lookupTransform :: transform
  time_now :: int
  GetFootprintCells :: "(real \<times> real) list option \<Rightarrow> occupancy_grid \<Rightarrow> (int \<times> int) list"
  FindPathByHashmap :: "occupancy_grid \<Rightarrow> int \<Rightarrow> int \<Rightarrow> real \<Rightarrow> bool \<times> vec3 list"
  memory :: machine

definition publish_robot_status_marker :: "string \<Rightarrow> node_state \<Rightarrow> node_state" where
  "publish_robot_status_marker str_message s =
     s\<lparr>pub_marker_status := pub_marker_status s @ [str_message]\<rparr>"

subsection \<open>Subgoal generation\<close>

text \<open>A score of the radial search: a double that is a number, or the outcome of a division
  by zero (minus infinity or not a number), which no comparison \<^verbatim>\<open>score > max_j_score\<close>
  accepts.\<close>

datatype score = Finite real | NotFinite

text \<open>The body of the inner loop up to the score, for the ray of angle index \<open>i\<close> and the
  distance step \<open>j\<close>: \<open>None\<close> when the cell ends the ray (the \<^verbatim>\<open>break\<close>), the score otherwise.
  When \<^verbatim>\<open>dis_base2goal\<close> is 0 the quotient \<^verbatim>\<open>dis_subgoal2finalgoal / dis_base2goal\<close> is
  infinite or not a number, and so is the score.\<close>

definition ray_sample ::
  "machine \<Rightarrow> occupancy_grid \<Rightarrow> real \<Rightarrow> real \<Rightarrow> vec3 \<Rightarrow> real \<Rightarrow> int \<Rightarrow> int \<Rightarrow> score option" where
  "ray_sample mem m offx offy vec_goal_base_frame dis_base2goal i j =
     (let distance_resolution = 0.6;
          theta_from_yaxis = pi / 18 * real_of_int i;
          tmp_dis = distance_resolution * real_of_int j;
          map_x = c_round ((tmp_dis * sin theta_from_yaxis - map_origin_x m + offx) / map_resolution m);
          map_y = c_round ((tmp_dis * cos theta_from_yaxis - map_origin_y m + offy) / map_resolution m);
          idx = map_y * int (map_width m) + map_x;
          obstacle_cost = real_of_int (get_local_max_cost mem m idx)
      in if obstacle_cost > real_of_int kThresObstacleDangerCost \<or> data_at mem m idx = - 1 then None
         else let dis_subgoal2finalgoal =
                    hypot (tmp_dis * sin theta_from_yaxis + offx - getX vec_goal_base_frame)
                          (tmp_dis * cos theta_from_yaxis + offy - getY vec_goal_base_frame)
              in if dis_base2goal = 0 then Some NotFinite
                 else Some (Finite (fl_score mem i j
                        ((1 - obstacle_cost / 100) +
                         (1 - dis_subgoal2finalgoal / dis_base2goal / 2)))))"

text \<open>The inner loop over the distance steps: the state is \<^verbatim>\<open>max_j_score\<close> and
  \<^verbatim>\<open>candidate_j_list\<close>, of which the ray writes the slot \<open>k = 16 - i\<close>.\<close>

fun ray_loop :: "(int \<Rightarrow> score option) \<Rightarrow> nat \<Rightarrow> int list \<Rightarrow> real \<times> int list \<Rightarrow> real \<times> int list" where
  "ray_loop sample k [] acc = acc"
| "ray_loop sample k (j # js) acc =
     (case sample j of
        None \<Rightarrow> acc
      | Some NotFinite \<Rightarrow> ray_loop sample k js acc
      | Some (Finite score) \<Rightarrow>
          if score > fst acc then ray_loop sample k js (score, (snd acc)[k := j])
          else ray_loop sample k js acc)"

record search_state =
  candidate_score_list :: "real list"
  candidate_j_list :: "int list"
  candidate_points :: "vec3 list"
  mrk_array :: "marker list"

definition max_distance_idx :: int where
  "max_distance_idx = c_round (8.0 / 0.6)"

text \<open>One pass of the outer loop, for the angle index \<open>i\<close>.\<close>

definition angle_step ::
  "machine \<Rightarrow> occupancy_grid \<Rightarrow> real \<Rightarrow> real \<Rightarrow> vec3 \<Rightarrow> real \<Rightarrow> search_state \<Rightarrow> int \<Rightarrow> search_state" where
  "angle_step mem m offx offy vec_goal_base_frame dis_base2goal st i =
     (let theta_from_yaxis = pi / 18 * real_of_int i;
          r = ray_loop (ray_sample mem m offx offy vec_goal_base_frame dis_base2goal i)
                (nat (16 - i)) [3..max_distance_idx] (0, candidate_j_list st);
          max_j_score = fst r;
          tmp_dis = 0.6 * real_of_int (snd r ! nat (16 - i));
          pt = (offx + tmp_dis * sin theta_from_yaxis, offy + tmp_dis * cos theta_from_yaxis, 0)
      in \<lparr>candidate_score_list = candidate_score_list st @ [max_j_score],
          candidate_j_list = snd r,
          candidate_points = candidate_points st @ [(offx, offy, 0), pt],
          mrk_array = mrk_array st @ [CandidateScore i max_j_score (getX pt, getY pt, 0.8)]\<rparr>)"

text \<open>The angle indices in the order of \<^verbatim>\<open>for(int i = 16; i >= 2; i--)\<close>.\<close>

definition angle_indices :: "int list" where
  "angle_indices = rev [2..16]"

definition radial_search ::
  "machine \<Rightarrow> occupancy_grid \<Rightarrow> real \<Rightarrow> real \<Rightarrow> vec3 \<Rightarrow> real \<Rightarrow> search_state" where
  "radial_search mem m offx offy vec_goal_base_frame dis_base2goal =
     foldl (angle_step mem m offx offy vec_goal_base_frame dis_base2goal)
       \<lparr>candidate_score_list = [], candidate_j_list = replicate 15 0,
        candidate_points = [], mrk_array = []\<rparr>
       angle_indices"

text \<open>\<^verbatim>\<open>std::max_element\<close> keeps the first of the largest elements: the running largest is
  replaced only by an element strictly above it.\<close>

fun max_element_loop :: "real list \<Rightarrow> nat \<Rightarrow> nat \<times> real \<Rightarrow> nat" where
  "max_element_loop [] pos largest = fst largest"
| "max_element_loop (v # vs) pos largest =
     (if snd largest < v then max_element_loop vs (Suc pos) (pos, v)
      else max_element_loop vs (Suc pos) largest)"

definition argmax :: "real list \<Rightarrow> nat" where
  "argmax vs = (case vs of [] \<Rightarrow> 0 | v # rest \<Rightarrow> max_element_loop rest 1 (0, v))"

text \<open>The test that sends \<^verbatim>\<open>generate_subgoal\<close> into the radial search:
  \<^verbatim>\<open>int((x - map_origin_x) / map_resolution) >= map_width\<close> or the same for \<open>y\<close> and the height.\<close>

definition goal_col :: "occupancy_grid \<Rightarrow> vec3 \<Rightarrow> int" where
  "goal_col m v = c_int ((getX v - map_origin_x m) / map_resolution m)"

definition goal_row :: "occupancy_grid \<Rightarrow> vec3 \<Rightarrow> int" where
  "goal_row m v = c_int ((getY v - map_origin_y m) / map_resolution m)"

definition finalgoal_out_of_range :: "occupancy_grid \<Rightarrow> vec3 \<Rightarrow> bool" where
  "finalgoal_out_of_range m v =
     (goal_col m v \<ge> int (map_width m) \<or> goal_row m v \<ge> int (map_height m))"

definition generate_subgoal ::
  "machine \<Rightarrow> occupancy_grid \<Rightarrow> vec3 \<Rightarrow> transform \<Rightarrow> node_state \<Rightarrow> vec3 \<times> node_state" where
  "generate_subgoal mem m finalgoal tf_base2odom s =
     (let tf_odom2base = tf_inverse tf_base2odom;
          s0 = s\<lparr>mkr_subgoal_candidate_points := []\<rparr>;
          vec_goal_base_frame = tf_apply tf_odom2base finalgoal;
          dis_base2goal = hypot (getX vec_goal_base_frame) (getY vec_goal_base_frame)
      in if finalgoal_out_of_range m vec_goal_base_frame then
           (let st = radial_search mem m (path_start_offsetx s) (path_start_offsety s)
                       vec_goal_base_frame dis_base2goal;
                index = argmax (candidate_score_list st);
                subgoal_pt = pose_at mem (candidate_points st) (int index * 2 + 1);
                vec_odom_frame = tf_apply tf_base2odom subgoal_pt
            in (subgoal_pt,
                s0\<lparr>mkr_subgoal_candidate_points := candidate_points st,
                   mrk_subgoal_position := vec_odom_frame,
                   pub_marker_array := pub_marker_array s0 @
                     [mrk_array st @ [CandidateLines (candidate_points st), SubgoalMarker vec_odom_frame]]\<rparr>))
         else
           (vec_goal_base_frame,
            s0\<lparr>mrk_subgoal_position := finalgoal,
               pub_marker_array := pub_marker_array s0 @ [ [SubgoalMarker finalgoal] ]\<rparr>))"

subsection \<open>The decision cycle of the timer\<close>

text \<open>The branch of \<^verbatim>\<open>timer_cb\<close> that chooses the subgoal point and reports the situation.\<close>

definition select_subgoal ::
  "machine \<Rightarrow> occupancy_grid \<Rightarrow> vec3 \<Rightarrow> transform \<Rightarrow> transform \<Rightarrow> bool \<Rightarrow> bool \<Rightarrow> bool \<Rightarrow> bool \<Rightarrow>
   node_state \<Rightarrow> vec3 \<times> node_state" where
  "select_subgoal mem m finalgoal tf_base2odom tf_odom2base
       flag_subgoal_safe flag_path_safe flag_path_deprecated flag_robot_following_path s =
     (if tracking_progress_percentage s \<ge> kThresPercentageOfArrival then
        (let r = generate_subgoal mem m finalgoal tf_base2odom s
         in (fst r, publish_robot_status_marker ''subgoal arrival, generate new subgoal'' (snd r)))
      else if walkable_path_ptr s \<noteq> None \<and> \<not> flag_subgoal_safe then
        (let subgoal_pt = approach_unsafe_subgoal mem m (walkable_path_ptr s) tf_odom2base
         in if getX subgoal_pt = 0 \<and> getY subgoal_pt = 0 then
              (let r = generate_subgoal mem m finalgoal tf_base2odom s
               in (fst r, publish_robot_status_marker ''new subgoal is generated'' (snd r)))
            else (subgoal_pt, publish_robot_status_marker ''approach unsafe subgoal'' s))
      else if walkable_path_ptr s \<noteq> None \<and> (\<not> flag_path_safe \<or> flag_path_deprecated) then
        (let vec_raw = pose_at mem (case walkable_path_ptr s of None \<Rightarrow> [] | Some p \<Rightarrow> poses p) 0;
             vec_transformed = tf_apply tf_odom2base vec_raw
         in (vec_transformed,
             if \<not> flag_path_safe then publish_robot_status_marker ''old path is not safe'' s
             else publish_robot_status_marker ''subgoal is too old'' s))
      else if walkable_path_ptr s \<noteq> None \<and> \<not> flag_robot_following_path then
        (let r = generate_subgoal mem m finalgoal tf_base2odom s
         in (fst r, publish_robot_status_marker ''robot is not on the path'' (snd r)))
      else generate_subgoal mem m finalgoal tf_base2odom s)"

text \<open>The planning part of \<^verbatim>\<open>timer_cb\<close>: a new empty path, the origin and target indices, the
  call of the solver and the publication of its path.\<close>

definition plan_path ::
  "environment \<Rightarrow> occupancy_grid \<Rightarrow> transform \<Rightarrow> vec3 \<Rightarrow> node_state \<Rightarrow> node_state" where
  "plan_path e m tf_base2odom subgoal_pt s =
     (let trans_base2odom = getOrigin tf_base2odom;
          rot_base2odom = getBasis tf_base2odom;
          new_path = \<lparr>stamp = 0, frame_id = path_frame_id s, poses = []\<rparr>;
          origin_idx =
            c_round ((- map_origin_y m + path_start_offsety s) / map_resolution m) * int (map_width m) +
            c_round ((- map_origin_x m + path_start_offsetx s) / map_resolution m);
          map_x = c_round ((getX subgoal_pt - map_origin_x m) / map_resolution m);
          map_y = c_round ((getY subgoal_pt - map_origin_y m) / map_resolution m);
          target_idx = map_y * int (map_width m) + map_x;
          r = FindPathByHashmap e m origin_idx target_idx (solver_timeout_ms s);
          s1 = s\<lparr>solver_calls := solver_calls s @ [(origin_idx, target_idx)]\<rparr>
      in if fst r then
           (let p = new_path\<lparr>poses := map (\<lambda>vec_raw. vec_add (mat_vec rot_base2odom vec_raw) trans_base2odom) (snd r),
                             stamp := time_now e\<rparr>
            in s1\<lparr>walkable_path_ptr := Some p, pub_walkable_path := pub_walkable_path s1 @ [p]\<rparr>)
         else
           (let p = new_path\<lparr>poses := snd r\<rparr>
            in s1\<lparr>walkable_path_ptr := Some p, pub_walkable_path := pub_walkable_path s1 @ [p]\<rparr>))"

definition empty_path :: "node_state \<Rightarrow> path" where
  "empty_path s = \<lparr>stamp = 0, frame_id = path_frame_id s, poses = []\<rparr>"

text \<open>The decision cycle of \<^verbatim>\<open>timer_cb\<close>: what the callback does once it has passed its lock and
  set the busy flag, up to its return.\<close>

definition timer_body :: "environment \<Rightarrow> node_state \<Rightarrow> node_state" where
  "timer_body e s =
     (case localmap_ptr s of
         None \<Rightarrow> s\<lparr>flag_planning_busy := False\<rparr>
       | Some m \<Rightarrow>
          (case finalgoal_ptr s of
             None \<Rightarrow> s\<lparr>flag_planning_busy := False\<rparr>
           | Some finalgoal \<Rightarrow>
              (let mem = memory e;
                   tf_base2odom = lookupTransform e;
                   tf_odom2base = tf_inverse tf_base2odom;
                   trans_base2odom = getOrigin tf_base2odom;
                   flag_footprint_safe =
                     is_footprint_safe mem m (GetFootprintCells e (footprint_ptr s) m);
                   flag_subgoal_safe = is_subgoal_safe mem m (walkable_path_ptr s) tf_odom2base;
                   flag_path_safe = is_path_safe mem m (walkable_path_ptr s) tf_odom2base;
                   flag_path_deprecated = is_path_deprecated (time_now e) (walkable_path_ptr s);
                   flag_robot_following_path =
                     is_robot_following_path mem (walkable_path_ptr s)
                       (tracking_progress_percentage s) tf_odom2base;
                   dis_robot2goal = hypot (getX trans_base2odom - getX finalgoal)
                                          (getY trans_base2odom - getY finalgoal)
               in if \<not> flag_footprint_safe then
                    (publish_robot_status_marker ''Collision detected''
                       (s\<lparr>pub_walkable_path := pub_walkable_path s @ [empty_path s]\<rparr>))
                      \<lparr>flag_planning_busy := False\<rparr>
                  else if dis_robot2goal \<le> map_resolution m * 2 then
                    (publish_robot_status_marker ''finalgoal arrival''
                       (s\<lparr>finalgoal_ptr := None,
                          pub_walkable_path := pub_walkable_path s @ [empty_path s],
                          walkable_path_ptr := None\<rparr>))
                      \<lparr>flag_planning_busy := False\<rparr>
                  else if (dis_robot2goal \<le> 1.5 \<or>
                           tracking_progress_percentage s < kThresPercentageOfArrival) \<and>
                          flag_path_safe \<and> flag_robot_following_path \<and> \<not> flag_path_deprecated then
                    (case walkable_path_ptr s of
                       None \<Rightarrow> s\<lparr>flag_planning_busy := False\<rparr>
                     | Some p \<Rightarrow>
                         s\<lparr>pub_walkable_path := pub_walkable_path s @ [p],
                           flag_planning_busy := False\<rparr>)
                  else
                    (let r = select_subgoal mem m finalgoal tf_base2odom tf_odom2base
                               flag_subgoal_safe flag_path_safe flag_path_deprecated
                               flag_robot_following_path s
                     in (plan_path e m tf_base2odom (fst r) (snd r))
                          \<lparr>flag_planning_busy := False\<rparr>))))"

text \<open>The callback: the lock (\<^verbatim>\<open>if (flag_planning_busy_) return;\<close>), then the flag is set and
  the cycle runs.\<close>

definition timer_cb :: "environment \<Rightarrow> node_state \<Rightarrow> node_state" where
  "timer_cb e s_in =
     (if flag_planning_busy s_in then s_in
      else timer_body e (s_in\<lparr>flag_planning_busy := True\<rparr>))"

subsection \<open>The other callbacks\<close>

definition progress_cb :: "real \<Rightarrow> node_state \<Rightarrow> node_state" where
  "progress_cb data s = s\<lparr>tracking_progress_percentage := data\<rparr>"

definition footprint_cb :: "(real \<times> real) list \<Rightarrow> node_state \<Rightarrow> node_state" where
  "footprint_cb footprint_msg s = s\<lparr>footprint_ptr := Some footprint_msg\<rparr>"

definition localmap_cb :: "occupancy_grid \<Rightarrow> node_state \<Rightarrow> node_state" where
  "localmap_cb map_msg s =
     (if \<not> flag_planning_busy s then s\<lparr>localmap_ptr := Some map_msg\<rparr> else s)"

text \<open>The decision cycle of \<^verbatim>\<open>finalgoal_cb\<close>: what the callback does after it has set the
  busy flag, up to its return.\<close>

definition finalgoal_body :: "environment \<Rightarrow> vec3 \<Rightarrow> node_state \<Rightarrow> node_state" where
  "finalgoal_body e goal_msg s_in =
     (let s = s_in\<lparr>finalgoal_ptr := Some goal_msg\<rparr>;
          mem = memory e;
          tf_base2odom = lookupTransform e;
          skipped = publish_robot_status_marker
                      ''Empty localmap or unsafe footprint, skip finalgoal assignment.'' s;
          s_out =
            (case localmap_ptr s of
               None \<Rightarrow> skipped
             | Some m \<Rightarrow>
                 if is_footprint_safe mem m (GetFootprintCells e (footprint_ptr s) m) then
                   (let g = generate_subgoal mem m goal_msg tf_base2odom s;
                        subgoal_pt = fst g;
                        s1 = snd g;
                        new_path = \<lparr>stamp = 0, frame_id = path_frame_id s1, poses = []\<rparr>;
                        origin_idx =
                          c_round ((- map_origin_y m + path_start_offsety s1) / map_resolution m) *
                            int (map_width m) +
                          c_round ((- map_origin_x m + path_start_offsetx s1) / map_resolution m);
                        map_x = c_round ((getX subgoal_pt - map_origin_x m) / map_resolution m);
                        map_y = c_round ((getY subgoal_pt - map_origin_y m) / map_resolution m);
                        target_idx = map_y * int (map_width m) + map_x;
                        r = FindPathByHashmap e m origin_idx target_idx (solver_timeout_ms s1);
                        s2 = s1\<lparr>solver_calls := solver_calls s1 @ [(origin_idx, target_idx)]\<rparr>
                    in if fst r then
                         (let p = new_path\<lparr>poses := map (tf_apply tf_base2odom) (snd r),
                                           stamp := time_now e\<rparr>
                          in s2\<lparr>walkable_path_ptr := Some p,
                                pub_walkable_path := pub_walkable_path s2 @ [p]\<rparr>)
                       else
                         (let p = new_path\<lparr>poses := snd r, stamp := time_now e\<rparr>
                          in (publish_robot_status_marker
                                ''timeout for path planning to finalgoal, skip this finalgoal assignment.''
                                s2)
                               \<lparr>finalgoal_ptr := None, walkable_path_ptr := Some p,
                                pub_walkable_path := pub_walkable_path s2 @ [p]\<rparr>))
                 else skipped)
      in s_out\<lparr>flag_planning_busy := False\<rparr>)"

text \<open>The callback sets the flag first, without testing it.\<close>

definition finalgoal_cb :: "environment \<Rightarrow> vec3 \<Rightarrow> node_state \<Rightarrow> node_state" where
  "finalgoal_cb e goal_msg s_in = finalgoal_body e goal_msg (s_in\<lparr>flag_planning_busy := True\<rparr>)"

text \<open>\<^verbatim>\<open>main\<close> hands every callback to \<^verbatim>\<open>ros::spin()\<close>, which runs them one at a time, each
  to its end: a run of the node is a sequence of events, each applied to the state the previous
  one left.\<close>

datatype event =
  MapUpdate occupancy_grid
  | FootprintUpdate "(real \<times> real) list"
  | ProgressUpdate real
  | GoalAssignment environment vec3
  | TimerTick environment

fun dispatch :: "node_state \<Rightarrow> event \<Rightarrow> node_state" where
  "dispatch s (MapUpdate map_msg) = localmap_cb map_msg s"
| "dispatch s (FootprintUpdate footprint_msg) = footprint_cb footprint_msg s"
| "dispatch s (ProgressUpdate data) = progress_cb data s"
| "dispatch s (GoalAssignment e goal_msg) = finalgoal_cb e goal_msg s"
| "dispatch s (TimerTick e) = timer_cb e s"

definition spin :: "node_state \<Rightarrow> event list \<Rightarrow> node_state" where
  "spin s events = foldl dispatch s events"

subsection \<open>Callbacks at the grain of entry and return\<close>

text \<open>To speak of a decision cycle that is under way, the two callbacks that run one are cut
  in two steps: the entry, which ends when the busy flag has been set, and the rest up to the
  return. A configuration holds the members of the node and the cycles that have been entered
  and have not returned yet.\<close>

datatype cycle =
  TimerCycle environment
  | GoalCycle environment vec3

record config =
  node :: node_state
  active :: "cycle list"

text \<open>The rest of a cycle, from the flag being set to the return.\<close>

fun finish :: "cycle \<Rightarrow> node_state \<Rightarrow> node_state" where
  "finish (TimerCycle e) s = timer_body e s"
| "finish (GoalCycle e goal_msg) s = finalgoal_body e goal_msg s"

datatype step =
  Enter event
  | Leave

text \<open>One step. The callbacks of one assignment run whole at their entry. A timer tick tests
  the flag: if it is set the callback returns at once, otherwise it sets the flag and its cycle
  is under way. A goal assignment sets the flag without a test and its cycle is under way.
  \<open>Leave\<close> runs the cycle entered last to its return.\<close>

fun exec :: "config \<Rightarrow> step \<Rightarrow> config" where
  "exec c (Enter (MapUpdate map_msg)) = c\<lparr>node := localmap_cb map_msg (node c)\<rparr>"
| "exec c (Enter (FootprintUpdate footprint_msg)) = c\<lparr>node := footprint_cb footprint_msg (node c)\<rparr>"
| "exec c (Enter (ProgressUpdate data)) = c\<lparr>node := progress_cb data (node c)\<rparr>"
| "exec c (Enter (TimerTick e)) =
     (if flag_planning_busy (node c) then c
      else \<lparr>node = (node c)\<lparr>flag_planning_busy := True\<rparr>, active = TimerCycle e # active c\<rparr>)"
| "exec c (Enter (GoalAssignment e goal_msg)) =
     \<lparr>node = (node c)\<lparr>flag_planning_busy := True\<rparr>, active = GoalCycle e goal_msg # active c\<rparr>"
| "exec c Leave =
     (case active c of
        [] \<Rightarrow> c
      | cy # rest \<Rightarrow> \<lparr>node = finish cy (node c), active = rest\<rparr>)"

text \<open>The steps of \<^verbatim>\<open>ros::spin()\<close>, which takes the next callback from the queue only when the
  one before has returned: a callback that has entered a cycle runs it to its return before
  the next event is served. The result lists the configurations after each step.\<close>

fun spin_run :: "config \<Rightarrow> event list \<Rightarrow> config list" where
  "spin_run c [] = []"
| "spin_run c (ev # events) =
     (if length (active (exec c (Enter ev))) > length (active c)
      then exec c (Enter ev) # exec (exec c (Enter ev)) Leave #
           spin_run (exec (exec c (Enter ev)) Leave) events
      else exec c (Enter ev) # spin_run (exec c (Enter ev)) events)"

subsection \<open>Notions used by the statements\<close>

text \<open>An offset cell survives both guards of the window scans: its linear index is inside
  \<open>[0, width * height - 1]\<close> and its column is at most \<open>bound\<close> away from the column of the
  centre.\<close>

definition survives :: "occupancy_grid \<Rightarrow> int \<Rightarrow> int \<Rightarrow> int \<Rightarrow> bool" where
  "survives m target_idx bound op_idx =
     (0 \<le> op_idx \<and> op_idx \<le> int (map_width m) * int (map_height m) - 1 \<and>
      \<bar>column_of m op_idx - column_of m target_idx\<bar> \<le> bound)"

text \<open>The cells of the window of \<^verbatim>\<open>get_local_max_cost\<close> that survive, in scan order.\<close>

definition window_cells :: "occupancy_grid \<Rightarrow> int \<Rightarrow> int \<Rightarrow> int list" where
  "window_cells m target_idx bound =
     filter (survives m target_idx bound)
       (map (\<lambda>yx. target_idx + snd yx + int (map_width m) * fst yx) (window_offsets bound))"

text \<open>A path pointer that is null or points to a path without poses.\<close>

definition null_or_empty :: "path option \<Rightarrow> bool" where
  "null_or_empty path_ptr = (case path_ptr of None \<Rightarrow> True | Some p \<Rightarrow> poses p = [])"

text \<open>A waypoint of the robot frame qualifies for the recovery when the maximum cost around
  its cell is below the danger threshold and the raw cost of its cell is known.\<close>

definition waypoint_qualifies :: "machine \<Rightarrow> occupancy_grid \<Rightarrow> vec3 \<Rightarrow> bool" where
  "waypoint_qualifies mem m v =
     (get_local_max_cost mem m (cell_index m v) < kThresObstacleDangerCost \<and>
      0 \<le> data_at mem m (cell_index m v))"

text \<open>The cell of the goal lies within the width and the height of the map.\<close>

definition goal_cell_in_bounds :: "occupancy_grid \<Rightarrow> vec3 \<Rightarrow> bool" where
  "goal_cell_in_bounds m v =
     (0 \<le> goal_col m v \<and> goal_col m v < int (map_width m) \<and>
      0 \<le> goal_row m v \<and> goal_row m v < int (map_height m))"

text \<open>The candidate of the ray \<open>i\<close> at the distance step \<open>j\<close>: the path start offset plus
  \<open>0.6 * j\<close> along the direction of the ray.\<close>

definition candidate_point :: "real \<Rightarrow> real \<Rightarrow> int \<Rightarrow> int \<Rightarrow> vec3" where
  "candidate_point offx offy i j =
     (offx + 0.6 * real_of_int j * sin (pi / 18 * real_of_int i),
      offy + 0.6 * real_of_int j * cos (pi / 18 * real_of_int i), 0)"

text \<open>What a ray keeps, given its samples: \<open>S\<close> holds the distance steps sampled before the
  ray stops, \<open>sc\<close> is the score recorded for the ray and \<open>kj\<close> the distance step recorded for
  it. No sampled score exceeds \<open>sc\<close>. When \<open>sc\<close> is positive, \<open>kj\<close> is the first sampled step
  whose score is \<open>sc\<close>; otherwise no step is kept and \<open>kj\<close> is 0.\<close>

definition ray_kept :: "(int \<Rightarrow> score option) \<Rightarrow> real \<Rightarrow> int \<Rightarrow> bool" where
  "ray_kept sample sc kj =
     (let S = takeWhile (\<lambda>j. sample j \<noteq> None) [3..max_distance_idx] in
        0 \<le> sc \<and> (\<forall>j\<in>set S. \<forall>v. sample j = Some (Finite v) \<longrightarrow> v \<le> sc) \<and>
        (if 0 < sc
         then kj \<in> set S \<and> sample kj = Some (Finite sc) \<and>
              (\<forall>j\<in>set S. \<forall>v. j < kj \<and> sample j = Some (Finite v) \<longrightarrow> v < sc)
         else kj = 0))"

subsection \<open>Loop invariants\<close>

text \<open>The inner loop, started with the maximum \<open>mx\<close> and the list \<open>l\<close> of distance steps, on
  the steps \<open>js\<close> still to visit.\<close>

definition ray_inv :: "(int \<Rightarrow> score option) \<Rightarrow> nat \<Rightarrow> int list \<Rightarrow> real \<Rightarrow> int list \<Rightarrow> real \<times> int list \<Rightarrow> bool" where
  "ray_inv sample k js mx l r =
     (let S = takeWhile (\<lambda>j. sample j \<noteq> None) js in
        mx \<le> fst r \<and> (\<forall>j\<in>set S. \<forall>v. sample j = Some (Finite v) \<longrightarrow> v \<le> fst r) \<and>
        length (snd r) = length l \<and>
        (\<forall>q. q \<noteq> k \<longrightarrow> snd r ! q = l ! q) \<and>
        (if mx < fst r
         then snd r ! k \<in> set S \<and> sample (snd r ! k) = Some (Finite (fst r)) \<and>
              (\<forall>j\<in>set S. \<forall>v. j < snd r ! k \<and> sample j = Some (Finite v) \<longrightarrow> v < fst r)
         else snd r = l))"

text \<open>The outer loop after \<open>n\<close> rays.\<close>

definition search_inv ::
  "machine \<Rightarrow> occupancy_grid \<Rightarrow> real \<Rightarrow> real \<Rightarrow> vec3 \<Rightarrow> real \<Rightarrow> nat \<Rightarrow> search_state \<Rightarrow> bool" where
  "search_inv mem m offx offy g D n st =
     (length (candidate_score_list st) = n \<and> length (candidate_points st) = 2 * n \<and>
      length (candidate_j_list st) = 15 \<and>
      (\<forall>p<n. ray_kept (ray_sample mem m offx offy g D (16 - int p))
                 (candidate_score_list st ! p) (candidate_j_list st ! p) \<and>
              candidate_points st ! (2 * p + 1) =
                candidate_point offx offy (16 - int p) (candidate_j_list st ! p)) \<and>
      (\<forall>q. n \<le> q \<and> q < 15 \<longrightarrow> candidate_j_list st ! q = 0))"

subsection \<open>Example inputs\<close>

text \<open>A grid of three rows and three columns with cells of 0.25 m, one occupied cell in the
  last row.\<close>

definition ex_grid :: occupancy_grid where
  "ex_grid = \<lparr>map_resolution = 0.25, map_origin_x = 0, map_origin_y = 0,
     map_width = 3, map_height = 3, map_data = [0, 0, 0, 0, 0, 0, 100, 0, 0]\<rparr>"

definition ex_memory :: machine where
  "ex_memory = \<lparr>cell_beyond = (\<lambda>_. 0), pose_beyond = (\<lambda>_. (0, 0, 0)),
     fl_score = (\<lambda>i j v. v)\<rparr>"

definition ex_path :: path where
  "ex_path = \<lparr>stamp = 0, frame_id = ''odom'', poses = [(1, 0, 0), (2, 0, 0), (3, 0, 0)]\<rparr>"

definition ex_empty_path :: path where
  "ex_empty_path = \<lparr>stamp = 0, frame_id = ''odom'', poses = []\<rparr>"

text \<open>A single cell of unknown cost.\<close>

definition ex_unknown_grid :: occupancy_grid where
  "ex_unknown_grid = \<lparr>map_resolution = 1, map_origin_x = 0, map_origin_y = 0,
     map_width = 1, map_height = 1, map_data = [- 1]\<rparr>"

text \<open>The example grid with every cell free.\<close>

definition ex_free_grid :: occupancy_grid where
  "ex_free_grid = ex_grid\<lparr>map_data := [0, 0, 0, 0, 0, 0, 0, 0, 0]\<rparr>"

text \<open>The robot frame and the odometry frame coincide.\<close>

definition ex_tf :: transform where
  "ex_tf = \<lparr>getBasis = ((1, 0, 0), (0, 1, 0), (0, 0, 1)), getOrigin = (0, 0, 0)\<rparr>"

text \<open>A path whose first waypoint lies on the occupied cell 6 of the example grid and whose
  second waypoint lies on the free cell 2.\<close>

definition ex_blocked_path :: path where
  "ex_blocked_path = \<lparr>stamp = 0, frame_id = ''odom'', poses = [(0, 0.5, 0), (0.5, 0, 0)]\<rparr>"

definition ex_environment :: environment where
  "ex_environment = \<lparr>lookupTransform = ex_tf, time_now = 1000000000,
     GetFootprintCells = (\<lambda>footprint m. [(0, 2)]),
     FindPathByHashmap = (\<lambda>m origin_idx target_idx timeout. (False, [])),
     memory = ex_memory\<rparr>"

definition ex_state :: node_state where
  "ex_state = \<lparr>localmap_ptr = Some ex_grid, walkable_path_ptr = Some ex_blocked_path,
     footprint_ptr = None, finalgoal_ptr = Some (0.5, 0.5, 0), path_frame_id = ''odom'',
     mkr_subgoal_candidate_points = [], mrk_subgoal_position = (0, 0, 0),
     solver_timeout_ms = 40, flag_planning_busy = False, tracking_progress_percentage = 0.5,
     path_start_offsetx = 0.44, path_start_offsety = 0,
     pub_walkable_path = [], pub_marker_array = [], pub_marker_status = [], solver_calls = []\<rparr>"

text \<open>A grid of one cell of 100 m whose origin puts every candidate of the radial search on
  that cell, and a goal one millimetre beside the robot, beyond the last row of the grid.\<close>

definition coarse_grid :: "int \<Rightarrow> occupancy_grid" where
  "coarse_grid c = \<lparr>map_resolution = 100, map_origin_x = 100, map_origin_y = - 100,
     map_width = 1, map_height = 1, map_data = [c]\<rparr>"

definition near_goal :: vec3 where
  "near_goal = (0, 0.001, 0)"

text \<open>A run of the node: the progress is reported, a map arrives, the timer fires, another
  map arrives.\<close>

definition ex_config :: config where
  "ex_config = \<lparr>node = ex_state, active = []\<rparr>"

definition ex_events :: "event list" where
  "ex_events = [ProgressUpdate 0.7, MapUpdate ex_grid, TimerTick ex_environment,
     MapUpdate ex_free_grid]"

section \<open>Verified properties\<close>

subsection \<open>General lemmas\<close>

lemma foldl_invariant:
  "P acc \<Longrightarrow> (\<And>a x. x \<in> set xs \<Longrightarrow> P a \<Longrightarrow> P (f a x)) \<Longrightarrow> P (foldl f acc xs)"
  by (induction xs arbitrary: acc) auto

lemma Max_ins:
  "finite A \<Longrightarrow> A \<noteq> {} \<Longrightarrow> Max (insert d A) = (if d > Max A then d else Max (A::int set))"
proof -
  assume "finite A" "A \<noteq> {}"
  then have "Max (insert d A) = max d (Max A)" by (rule Max_insert)
  then show ?thesis by (metis max_def linorder_not_less)
qed

lemma Max_snoc:
  "Max (insert (0::int) (f ` set (r @ [i]))) =
     (if f i > Max (insert 0 (f ` set r)) then f i else Max (insert 0 (f ` set r)))"
proof -
  define A where "A = insert 0 (f ` set r)"
  have A: "finite A" "A \<noteq> {}" by (simp_all add: A_def)
  have "insert 0 (f ` set (r @ [i])) = insert (f i) A"
    by (auto simp add: A_def)
  then show ?thesis
    unfolding A_def [symmetric] using Max_ins [OF A] by simp
qed

subsection \<open>The window scans\<close>

lemma max_cost_step_reads:
  "list_all (survives m t b) (snd acc) \<Longrightarrow>
   list_all (survives m t b) (snd (max_cost_step mem m t b acc yx))"
  by (cases acc; cases yx) (simp add: max_cost_step_def Let_def survives_def column_of_def)

lemma avg_cost_step_reads:
  "list_all (survives m t b) (snd acc) \<Longrightarrow>
   list_all (survives m t b) (snd (avg_cost_step mem m t b acc yx))"
  by (cases acc; cases yx) (simp add: avg_cost_step_def Let_def survives_def column_of_def)

lemma max_cost_reads_survive:
  "list_all (survives m t (kernel_bound 0.6 m)) (max_cost_reads mem m t)"
  unfolding max_cost_reads_def scan_max_cost_def Let_def
  by (rule foldl_invariant) (simp_all add: max_cost_step_reads)

lemma avg_cost_reads_survive:
  "list_all (survives m t (kernel_bound 1.0 m)) (avg_cost_reads mem m t)"
  unfolding avg_cost_reads_def scan_avg_cost_def Let_def
  by (rule foldl_invariant) (simp_all add: avg_cost_step_reads)

lemma max_cost_step_value:
  assumes "fst acc = Max (insert 0 (data_at mem m ` set (snd acc)))"
  shows "fst (max_cost_step mem m t b acc yx) =
     Max (insert 0 (data_at mem m ` set (snd (max_cost_step mem m t b acc yx))))"
proof -
  obtain c r where acc: "acc = (c, r)" by (cases acc)
  obtain y x where yx: "yx = (y, x)" by (cases yx)
  define M where "M = (\<lambda>r. Max (insert 0 (data_at mem m ` set r)))"
  have snoc: "M (r @ [i]) = (if data_at mem m i > M r then data_at mem m i else M r)" for i
    unfolding M_def by (rule Max_snoc)
  have c: "c = M r" using assms acc by (simp add: M_def)
  have "fst (max_cost_step mem m t b (c, r) (y, x)) = M (snd (max_cost_step mem m t b (c, r) (y, x)))"
    by (simp add: max_cost_step_def Let_def snoc c)
  then show ?thesis unfolding acc yx M_def .
qed

lemma max_cost_value:
  "get_local_max_cost mem m t = Max (insert 0 (data_at mem m ` set (max_cost_reads mem m t)))"
  unfolding get_local_max_cost_def max_cost_reads_def scan_max_cost_def Let_def
  by (rule foldl_invariant) (simp_all add: max_cost_step_value)

lemma column_of_nonneg: "0 \<le> i \<Longrightarrow> column_of m i = i mod int (map_width m)"
  by (simp add: column_of_def c_rem_def sgn_if)

lemma max_cost_step_snd:
  "snd (max_cost_step mem m t b acc yx) =
     snd acc @ filter (survives m t b) [t + snd yx + int (map_width m) * fst yx]"
  by (cases acc; cases yx) (simp add: max_cost_step_def Let_def survives_def column_of_def)

lemma foldl_max_reads:
  "snd (foldl (max_cost_step mem m t b) acc offs) =
     snd acc @ filter (survives m t b) (map (\<lambda>yx. t + snd yx + int (map_width m) * fst yx) offs)"
proof (induction offs arbitrary: acc)
  case Nil
  then show ?case by simp
next
  case (Cons yx offs)
  show ?case
    unfolding foldl_Cons Cons.IH max_cost_step_snd by simp
qed

lemma max_cost_reads_eq:
  "max_cost_reads mem m t = window_cells m t (kernel_bound 0.6 m)"
  by (simp add: max_cost_reads_def scan_max_cost_def Let_def foldl_max_reads window_cells_def)

lemma survives_in_array:
  "grid_ok m \<Longrightarrow> survives m t b i \<Longrightarrow> 0 \<le> i \<and> i < int (length (map_data m))"
  by (simp add: grid_ok_def survives_def)

lemma window_cells_in_array:
  assumes "grid_ok m" and "i \<in> set (window_cells m t b)"
  shows "0 \<le> i \<and> i < int (length (map_data m))"
  using assms survives_in_array [of m t b i] by (simp add: window_cells_def)

lemma ex_grid_ok: "grid_ok ex_grid"
  by code_simp

text \<open>
  Claim C3. For every well-formed map and every centre index, the scans of \<^verbatim>\<open>get_local_max_cost\<close> and
  \<^verbatim>\<open>get_local_avg_cost\<close> read the cell array only at indices inside
  \<open>[0, width * height - 1]\<close> whose column (\<^verbatim>\<open>idx % map_width\<close>) differs from the column of
  the centre by at most the half-width \<^verbatim>\<open>bound\<close> of the window. So an offset cell whose index
  is in range but whose column is farther away is never read, and neither is a cell whose
  index is out of range. For an index that is not negative, \<^verbatim>\<open>idx % map_width\<close> is the
  column of the cell in the row-major array.
\<close>

theorem window_scans_read_only_surviving_cells:
  assumes "grid_ok m"
  shows "(\<forall>i \<in> set (max_cost_reads mem m target_idx).
      0 \<le> i \<and> i \<le> int (map_width m) * int (map_height m) - 1 \<and>
      \<bar>column_of m i - column_of m target_idx\<bar> \<le> kernel_bound 0.6 m) \<and>
   (\<forall>i \<in> set (avg_cost_reads mem m target_idx).
      0 \<le> i \<and> i \<le> int (map_width m) * int (map_height m) - 1 \<and>
      \<bar>column_of m i - column_of m target_idx\<bar> \<le> kernel_bound 1.0 m) \<and>
   (\<forall>i. 0 \<le> i \<longrightarrow> column_of m i = i mod int (map_width m))"
proof -
  have scans: "(\<forall>i \<in> set (max_cost_reads mem m target_idx). survives m target_idx (kernel_bound 0.6 m) i) \<and>
      (\<forall>i \<in> set (avg_cost_reads mem m target_idx). survives m target_idx (kernel_bound 1.0 m) i)"
    using max_cost_reads_survive [of m target_idx mem] avg_cost_reads_survive [of m target_idx mem]
    by (simp only: list_all_iff)
  have column: "\<forall>i. 0 \<le> i \<longrightarrow> column_of m i = i mod int (map_width m)"
    using column_of_nonneg by blast
  show ?thesis
    using scans column unfolding survives_def by blast
qed

text \<open>In the example grid the window of the centre 3 (second row, first column) has half-width
  1 for the maximum and 2 for the average: the cells 2, 5 and 8 of the last column are in range,
  and the maximum scan skips them. The grid is narrower than the window of the average, whose
  scan therefore meets some cells twice.\<close>

theorem window_scans_read_only_surviving_cells_witness:
  "grid_ok ex_grid \<and>
   max_cost_reads ex_memory ex_grid 3 = [0, 1, 3, 4, 6, 7] \<and>
   avg_cost_reads ex_memory ex_grid 3 = [0, 1, 2, 1, 2, 3, 4, 5, 4, 5, 6, 7, 8, 7, 8] \<and>
   list_all (\<lambda>i. 0 \<le> i \<and> i \<le> int (map_width ex_grid) * int (map_height ex_grid) - 1 \<and>
               \<bar>column_of ex_grid i - column_of ex_grid 3\<bar> \<le> kernel_bound 0.6 ex_grid)
     (max_cost_reads ex_memory ex_grid 3) \<and>
   list_all (\<lambda>i. 0 \<le> i \<and> i \<le> int (map_width ex_grid) * int (map_height ex_grid) - 1 \<and>
               \<bar>column_of ex_grid i - column_of ex_grid 3\<bar> \<le> kernel_bound 1.0 ex_grid)
     (avg_cost_reads ex_memory ex_grid 3)"
proof -
  have "max_cost_reads ex_memory ex_grid 3 = [0, 1, 3, 4, 6, 7]" by code_simp
  moreover have "avg_cost_reads ex_memory ex_grid 3 = [0, 1, 2, 1, 2, 3, 4, 5, 4, 5, 6, 7, 8, 7, 8]"
    by code_simp
  ultimately show ?thesis
    using window_scans_read_only_surviving_cells [OF ex_grid_ok, of ex_memory 3] ex_grid_ok
    unfolding list_all_iff by blast
qed

subsection \<open>The tracked waypoint\<close>

text \<open>
  Claim C9. For a path with at least one waypoint and a tracking progress in \<open>[0, 0.99]\<close>, the
  index \<^verbatim>\<open>poses.size() * (0.99 - progress)\<close>, truncated to an integer, lies in
  \<open>[0, size - 1]\<close>; the read of \<^verbatim>\<open>poses[target_idx]\<close> in \<^verbatim>\<open>is_robot_following_path\<close> is
  then a read of the array itself.
\<close>

theorem tracked_index_in_bounds:
  assumes "poses pth \<noteq> []" and "0 \<le> progress" and "progress \<le> 0.99"
  shows "0 \<le> tracked_index (length (poses pth)) progress \<and>
         tracked_index (length (poses pth)) progress \<le> int (length (poses pth)) - 1 \<and>
         pose_at mem (poses pth) (tracked_index (length (poses pth)) progress) =
           poses pth ! nat (tracked_index (length (poses pth)) progress)"
proof -
  let ?n = "length (poses pth)"
  let ?v = "real ?n * (0.99 - progress)"
  have v0: "0 \<le> ?v" using assms(3) by simp
  have "0.99 - progress \<le> 0.99" using assms(2) by simp
  then have "?v \<le> real ?n * 0.99" by (rule mult_left_mono) simp
  also have "\<dots> < real ?n" using assms(1) by simp
  finally have v1: "?v < real ?n" .
  have "\<lfloor>?v\<rfloor> < int ?n" using v1 by (simp add: floor_less_iff)
  moreover have "0 \<le> \<lfloor>?v\<rfloor>" using v0 by simp
  ultimately have "0 \<le> tracked_index ?n progress \<and> tracked_index ?n progress < int ?n"
    using v0 by (simp add: tracked_index_def c_int_def)
  then show ?thesis by (simp add: pose_at_def)
qed

theorem tracked_index_in_bounds_witness:
  "poses ex_path \<noteq> [] \<and> (0::real) \<le> 0.5 \<and> (0.5::real) \<le> 0.99 \<and>
   tracked_index (length (poses ex_path)) 0.5 = 1 \<and>
   pose_at ex_memory (poses ex_path) (tracked_index (length (poses ex_path)) 0.5) = (2, 0, 0)"
proof -
  have h: "poses ex_path \<noteq> []" "(0::real) \<le> 0.5" "(0.5::real) \<le> 0.99"
    by (simp_all add: ex_path_def)
  have "tracked_index (length (poses ex_path)) 0.5 = 1"
    by (simp add: tracked_index_def c_int_def ex_path_def)
  then show ?thesis
    using h tracked_index_in_bounds [OF h, of ex_memory] by (simp add: ex_path_def)
qed

subsection \<open>The maximum cost of a window\<close>

text \<open>
  Claim C7, as the source has it. On a well-formed map \<^verbatim>\<open>get_local_max_cost\<close> reads the cell
  array only inside its range, for every centre index, so it never fails. The cells it reads are
  the surviving cells of the window, and it returns the maximum of 0 and their costs. Hence it
  returns 0 exactly when no surviving cell has a positive cost: in particular when no cell of the
  window survives, and when every surviving cell is free. A centre index outside the grid is not
  treated apart: the result is the maximum over the part of its window that lies in the grid,
  which can be positive (see the counterexample below).
\<close>

theorem max_cost_is_maximum_of_surviving_cells:
  assumes "grid_ok m"
  shows "max_cost_reads mem m target_idx = window_cells m target_idx (kernel_bound 0.6 m) \<and>
         (\<forall>i \<in> set (max_cost_reads mem m target_idx). 0 \<le> i \<and> i < int (length (map_data m))) \<and>
         get_local_max_cost mem m target_idx =
           Max (insert 0 ((\<lambda>i. map_data m ! nat i) `
                  set (window_cells m target_idx (kernel_bound 0.6 m)))) \<and>
         (get_local_max_cost mem m target_idx = 0) =
           (\<forall>i \<in> set (window_cells m target_idx (kernel_bound 0.6 m)). map_data m ! nat i \<le> 0) \<and>
         (window_cells m target_idx (kernel_bound 0.6 m) = [] \<longrightarrow>
            get_local_max_cost mem m target_idx = 0) \<and>
         ((\<forall>i \<in> set (window_cells m target_idx (kernel_bound 0.6 m)). map_data m ! nat i = 0) \<longrightarrow>
            get_local_max_cost mem m target_idx = 0)"
proof -
  let ?W = "window_cells m target_idx (kernel_bound 0.6 m)"
  define A where "A = (\<lambda>i. map_data m ! nat i) ` set ?W"
  have fin: "finite A" by (simp add: A_def)
  have reads: "max_cost_reads mem m target_idx = ?W" by (rule max_cost_reads_eq)
  have inarr: "\<forall>i \<in> set ?W. 0 \<le> i \<and> i < int (length (map_data m))"
    using window_cells_in_array [OF assms] by blast
  then have "data_at mem m ` set ?W = A"
    unfolding A_def by (intro image_cong) (simp_all add: data_at_def)
  then have val: "get_local_max_cost mem m target_idx = Max (insert 0 A)"
    using max_cost_value [of mem m target_idx] reads by simp
  have "(Max (insert 0 A) \<le> 0) = (\<forall>a\<in>insert 0 A. a \<le> 0)"
    using fin by (intro Max_le_iff) simp_all
  moreover have "0 \<le> Max (insert 0 A)"
    using fin by (intro Max_ge) simp_all
  ultimately have "(Max (insert 0 A) = 0) = (\<forall>a\<in>A. a \<le> 0)"
    by auto
  then have iff: "(get_local_max_cost mem m target_idx = 0) = (\<forall>i \<in> set ?W. map_data m ! nat i \<le> 0)"
    unfolding val A_def by blast
  have e: "?W = [] \<longrightarrow> get_local_max_cost mem m target_idx = 0"
    unfolding iff by simp
  have z: "(\<forall>i \<in> set ?W. map_data m ! nat i = 0) \<longrightarrow> get_local_max_cost mem m target_idx = 0"
    unfolding iff by simp
  have inarr': "\<forall>i \<in> set (max_cost_reads mem m target_idx). 0 \<le> i \<and> i < int (length (map_data m))"
    unfolding reads by (rule inarr)
  note val' = val [unfolded A_def]
  show ?thesis
    by (rule conjI [OF reads conjI [OF inarr' conjI [OF val' conjI [OF iff conjI [OF e z]]]]])
qed

text \<open>In the example grid: the window of the centre 4 is the whole grid and holds the occupied
  cell; the window of the centre 1 holds free cells only; no cell of the window of the centre
  100 survives. In the free grid the cells 6 and 7 of the window of the centre 9 survive, both
  are free, and the result is 0.\<close>

theorem max_cost_is_maximum_of_surviving_cells_witness:
  "grid_ok ex_grid \<and>
   max_cost_reads ex_memory ex_grid 4 = [0, 1, 2, 3, 4, 5, 6, 7, 8] \<and>
   get_local_max_cost ex_memory ex_grid 4 = 100 \<and>
   window_cells ex_grid 1 (kernel_bound 0.6 ex_grid) = [0, 1, 2, 3, 4, 5] \<and>
   get_local_max_cost ex_memory ex_grid 1 = 0 \<and>
   window_cells ex_grid 100 (kernel_bound 0.6 ex_grid) = [] \<and>
   get_local_max_cost ex_memory ex_grid 100 = 0 \<and>
   grid_ok ex_free_grid \<and>
   window_cells ex_free_grid 9 (kernel_bound 0.6 ex_free_grid) = [6, 7] \<and>
   get_local_max_cost ex_memory ex_free_grid 9 = 0"
proof -
  have w4: "window_cells ex_grid 4 (kernel_bound 0.6 ex_grid) = [0, 1, 2, 3, 4, 5, 6, 7, 8]"
    by code_simp
  have w1: "window_cells ex_grid 1 (kernel_bound 0.6 ex_grid) = [0, 1, 2, 3, 4, 5]"
    by code_simp
  have w100: "window_cells ex_grid 100 (kernel_bound 0.6 ex_grid) = []"
    by code_simp
  have w9: "window_cells ex_free_grid 9 (kernel_bound 0.6 ex_free_grid) = [6, 7]"
    by code_simp
  have d: "map_data ex_grid = [0, 0, 0, 0, 0, 0, 100, 0, 0]"
    by (simp add: ex_grid_def)
  have f: "map_data ex_free_grid = [0, 0, 0, 0, 0, 0, 0, 0, 0]"
    by (simp add: ex_free_grid_def)
  have fok: "grid_ok ex_free_grid"
    by code_simp
  have a: "max_cost_reads ex_memory ex_grid 4 = [0, 1, 2, 3, 4, 5, 6, 7, 8] \<and>
       get_local_max_cost ex_memory ex_grid 4 = 100"
    using max_cost_is_maximum_of_surviving_cells [OF ex_grid_ok, of ex_memory 4]
    unfolding w4 d by simp
  have b: "get_local_max_cost ex_memory ex_grid 1 = 0"
    using max_cost_is_maximum_of_surviving_cells [OF ex_grid_ok, of ex_memory 1]
    unfolding w1 d by simp
  have c: "get_local_max_cost ex_memory ex_grid 100 = 0"
    using max_cost_is_maximum_of_surviving_cells [OF ex_grid_ok, of ex_memory 100]
    unfolding w100 by simp
  have e: "get_local_max_cost ex_memory ex_free_grid 9 = 0"
    using max_cost_is_maximum_of_surviving_cells [OF fok, of ex_memory 9]
    unfolding w9 f by simp
  show ?thesis
    using a b c e w1 w100 w9 fok ex_grid_ok by blast
qed

text \<open>The claim as it is written fails twice. The centre 9 is outside the example grid (the
  indices end at 8), yet the window still reaches the occupied cell 6 and the result is 100, not
  0. And on a grid whose only cell is unknown the surviving cell has cost \<open>-1\<close>, yet the result
  is 0, the initial value of the running maximum.\<close>

theorem max_cost_out_of_range_index_counterexample:
  "\<not> (0 \<le> (9::int) \<and> 9 \<le> int (map_width ex_grid) * int (map_height ex_grid) - 1) \<and>
   get_local_max_cost ex_memory ex_grid 9 = 100 \<and>
   window_cells ex_unknown_grid 0 (kernel_bound 0.6 ex_unknown_grid) = [0] \<and>
   map_data ex_unknown_grid ! 0 = - 1 \<and>
   get_local_max_cost ex_memory ex_unknown_grid 0 = 0"
  by code_simp

subsection \<open>Null and empty paths\<close>

text \<open>
  Claim C8. For a path pointer that is null or whose path has no poses, \<^verbatim>\<open>is_subgoal_safe\<close>
  and \<^verbatim>\<open>is_path_safe\<close> return false, \<^verbatim>\<open>is_path_deprecated\<close> returns true, and
  \<^verbatim>\<open>is_robot_following_path\<close> returns false for every progress value and every transform;
  none of them reads the map or the path.
\<close>

theorem predicates_conservative_on_null_or_empty_path:
  assumes "null_or_empty path_ptr"
  shows "\<not> is_subgoal_safe mem m path_ptr tf_odom2base \<and>
         \<not> is_path_safe mem m path_ptr tf_odom2base \<and>
         is_path_deprecated now path_ptr \<and>
         \<not> is_robot_following_path mem path_ptr progress tf_odom2base"
  using assms
  by (cases path_ptr)
     (simp_all add: null_or_empty_def is_subgoal_safe_def is_path_safe_def is_path_deprecated_def
        is_robot_following_path_def)

theorem predicates_conservative_on_null_or_empty_path_witness:
  "null_or_empty None \<and> null_or_empty (Some ex_empty_path) \<and>
   \<not> is_subgoal_safe ex_memory ex_grid None ex_tf \<and>
   \<not> is_path_safe ex_memory ex_grid None ex_tf \<and>
   is_path_deprecated 0 None \<and>
   \<not> is_robot_following_path ex_memory None 0.5 ex_tf \<and>
   \<not> is_subgoal_safe ex_memory ex_grid (Some ex_empty_path) ex_tf \<and>
   \<not> is_path_safe ex_memory ex_grid (Some ex_empty_path) ex_tf \<and>
   is_path_deprecated 0 (Some ex_empty_path) \<and>
   \<not> is_robot_following_path ex_memory (Some ex_empty_path) 0.5 ex_tf"
proof -
  have h: "null_or_empty None" "null_or_empty (Some ex_empty_path)"
    by (simp_all add: null_or_empty_def ex_empty_path_def)
  show ?thesis
    using h predicates_conservative_on_null_or_empty_path [OF h(1), of ex_memory ex_grid ex_tf 0 "0.5"]
      predicates_conservative_on_null_or_empty_path [OF h(2), of ex_memory ex_grid ex_tf 0 "0.5"]
    by simp
qed

subsection \<open>Recovery from an unsafe subgoal\<close>

lemma ex_approach:
  "approach_unsafe_subgoal ex_memory ex_grid (Some ex_blocked_path) ex_tf = (0.5, 0, 0)"
  by code_simp

lemma ex_first_waypoint: "\<not> waypoint_qualifies ex_memory ex_grid (tf_apply ex_tf (0, 0.5, 0))"
  by code_simp

lemma ex_second_waypoint: "waypoint_qualifies ex_memory ex_grid (tf_apply ex_tf (0.5, 0, 0))"
  by code_simp

text \<open>
  Claim C6. On a well-formed map \<^verbatim>\<open>approach_unsafe_subgoal\<close> returns the point \<open>(0, 0)\<close> for a null pointer; for a
  path it returns the first waypoint, in path order and transformed into the robot frame, that
  qualifies (maximum cost below the danger threshold, raw cost not negative), and \<open>(0, 0)\<close> when
  no waypoint qualifies, which covers the path without poses. In the unsafe subgoal branch of
  \<^verbatim>\<open>timer_cb\<close> the caller takes a result with \<open>x = 0\<close> and \<open>y = 0\<close> as the absence of a safe
  point and calls \<^verbatim>\<open>generate_subgoal\<close>; any other result is the subgoal.
\<close>

theorem approach_unsafe_subgoal_first_qualifying_waypoint:
  assumes "grid_ok m"
  shows "approach_unsafe_subgoal mem m None tf_odom2base = (0, 0, 0) \<and>
   approach_unsafe_subgoal mem m (Some p) tf_odom2base =
     (case find (waypoint_qualifies mem m) (map (tf_apply tf_odom2base) (poses p)) of
        None \<Rightarrow> (0, 0, 0) | Some v \<Rightarrow> v) \<and>
   (tracking_progress_percentage s < kThresPercentageOfArrival \<and> walkable_path_ptr s = Some p \<and>
    \<not> flag_subgoal_safe \<longrightarrow>
      select_subgoal mem m finalgoal tf_base2odom tf_odom2base flag_subgoal_safe flag_path_safe
          flag_path_deprecated flag_robot_following_path s =
        (let subgoal_pt = approach_unsafe_subgoal mem m (Some p) tf_odom2base
         in if getX subgoal_pt = 0 \<and> getY subgoal_pt = 0
            then (fst (generate_subgoal mem m finalgoal tf_base2odom s),
                  publish_robot_status_marker ''new subgoal is generated''
                    (snd (generate_subgoal mem m finalgoal tf_base2odom s)))
            else (subgoal_pt, publish_robot_status_marker ''approach unsafe subgoal'' s)))"
proof -
  have loop: "approach_loop mem m tf_odom2base ps =
     (case find (waypoint_qualifies mem m) (map (tf_apply tf_odom2base) ps) of
        None \<Rightarrow> (0, 0, 0) | Some v \<Rightarrow> v)" for ps
  proof (induction ps)
    case Nil
    show ?case by simp
  next
    case (Cons q qs)
    show ?case
    proof (cases "waypoint_qualifies mem m (tf_apply tf_odom2base q)")
      case True
      then show ?thesis by (simp add: Let_def waypoint_qualifies_def)
    next
      case False
      then show ?thesis using Cons.IH by (simp add: Let_def waypoint_qualifies_def not_less)
    qed
  qed
  have null: "approach_unsafe_subgoal mem m None tf_odom2base = (0, 0, 0)"
    by (simp add: approach_unsafe_subgoal_def)
  have first: "approach_unsafe_subgoal mem m (Some p) tf_odom2base =
     (case find (waypoint_qualifies mem m) (map (tf_apply tf_odom2base) (poses p)) of
        None \<Rightarrow> (0, 0, 0) | Some v \<Rightarrow> v)"
    by (simp add: approach_unsafe_subgoal_def loop)
  show ?thesis
    unfolding null first by (simp add: select_subgoal_def Let_def first)
qed

text \<open>The first waypoint of the example path lies on the occupied cell, the second one is
  free: the recovery returns the second one and the caller keeps it.\<close>

theorem approach_unsafe_subgoal_first_qualifying_waypoint_witness:
  "grid_ok ex_grid \<and>
   approach_unsafe_subgoal ex_memory ex_grid None ex_tf = (0, 0, 0) \<and>
   approach_unsafe_subgoal ex_memory ex_grid (Some ex_blocked_path) ex_tf = (0.5, 0, 0) \<and>
   \<not> waypoint_qualifies ex_memory ex_grid (tf_apply ex_tf (0, 0.5, 0)) \<and>
   waypoint_qualifies ex_memory ex_grid (tf_apply ex_tf (0.5, 0, 0)) \<and>
   tracking_progress_percentage ex_state < kThresPercentageOfArrival \<and>
   walkable_path_ptr ex_state = Some ex_blocked_path \<and>
   select_subgoal ex_memory ex_grid (0.5, 0.5, 0) ex_tf ex_tf False False False False ex_state =
     ((0.5, 0, 0), publish_robot_status_marker ''approach unsafe subgoal'' ex_state)"
proof -
  have h: "tracking_progress_percentage ex_state < kThresPercentageOfArrival"
    "walkable_path_ptr ex_state = Some ex_blocked_path"
    by (simp_all add: ex_state_def kThresPercentageOfArrival_def)
  show ?thesis
    using approach_unsafe_subgoal_first_qualifying_waypoint
        [OF ex_grid_ok, where mem = ex_memory and tf_odom2base = ex_tf and p = ex_blocked_path
           and s = ex_state and flag_subgoal_safe = False and finalgoal = "(0.5, 0.5, 0)"
           and tf_base2odom = ex_tf and flag_path_safe = False and flag_path_deprecated = False
           and flag_robot_following_path = False]
      h ex_grid_ok ex_approach ex_first_waypoint ex_second_waypoint
    by (simp add: Let_def getX_def getY_def)
qed

subsection \<open>A goal inside the map\<close>

text \<open>
  Claim C2. On a well-formed map, when the cell of the goal in the robot frame lies within the
  width and the height of the map, \<^verbatim>\<open>generate_subgoal\<close> returns the transformed goal. The
  radial search does not run: the list of candidate points stays empty after it was cleared, and
  the one marker array published holds the subgoal marker alone.
\<close>

theorem generate_subgoal_goal_in_range_direct:
  assumes "grid_ok m" and "goal_cell_in_bounds m (tf_apply (tf_inverse tf_base2odom) finalgoal)"
  shows "generate_subgoal mem m finalgoal tf_base2odom s =
           (tf_apply (tf_inverse tf_base2odom) finalgoal,
            s\<lparr>mkr_subgoal_candidate_points := [], mrk_subgoal_position := finalgoal,
              pub_marker_array := pub_marker_array s @ [ [SubgoalMarker finalgoal] ]\<rparr>)"
  using assms(2)
  by (simp add: generate_subgoal_def Let_def goal_cell_in_bounds_def finalgoal_out_of_range_def)

lemma ex_goal_in_bounds: "goal_cell_in_bounds ex_grid (tf_apply (tf_inverse ex_tf) (0.5, 0.5, 0))"
  by code_simp

lemma ex_goal_base_frame: "tf_apply (tf_inverse ex_tf) (0.5, 0.5, 0) = (0.5, 0.5, 0)"
  by code_simp

theorem generate_subgoal_goal_in_range_direct_witness:
  "grid_ok ex_grid \<and> goal_cell_in_bounds ex_grid (tf_apply (tf_inverse ex_tf) (0.5, 0.5, 0)) \<and>
   generate_subgoal ex_memory ex_grid (0.5, 0.5, 0) ex_tf ex_state =
     ((0.5, 0.5, 0),
      ex_state\<lparr>mkr_subgoal_candidate_points := [], mrk_subgoal_position := (0.5, 0.5, 0),
        pub_marker_array := [ [SubgoalMarker (0.5, 0.5, 0)] ]\<rparr>)"
proof -
  have "pub_marker_array ex_state = []" by (simp add: ex_state_def)
  then show ?thesis
    using generate_subgoal_goal_in_range_direct [OF ex_grid_ok ex_goal_in_bounds, of ex_memory ex_state]
      ex_grid_ok ex_goal_in_bounds ex_goal_base_frame
    by simp
qed

subsection \<open>The collision branch of the timer\<close>

lemma ex_footprint_unsafe:
  "\<not> is_footprint_safe (memory ex_environment) ex_grid
        (GetFootprintCells ex_environment (footprint_ptr ex_state) ex_grid)"
  by code_simp

text \<open>
  Claim C5. When \<^verbatim>\<open>timer_cb\<close> runs a decision cycle (the busy flag is off on entry) with a
  well-formed map and a goal present and \<^verbatim>\<open>is_footprint_safe\<close> returns false, it publishes an empty path
  and the status \<^verbatim>\<open>Collision detected\<close> and changes nothing else: the goal and the stored path
  are the ones it found, the solver is not called, and the busy flag is off on return.
\<close>

theorem timer_cb_collision_branch:
  assumes "\<not> flag_planning_busy s" and "localmap_ptr s = Some m" and "grid_ok m"
    and "finalgoal_ptr s = Some finalgoal"
    and "\<not> is_footprint_safe (memory e) m (GetFootprintCells e (footprint_ptr s) m)"
  shows "timer_cb e s =
           s\<lparr>pub_walkable_path := pub_walkable_path s @
                [\<lparr>stamp = 0, frame_id = path_frame_id s, poses = []\<rparr>],
             pub_marker_status := pub_marker_status s @ [''Collision detected'']\<rparr> \<and>
         finalgoal_ptr (timer_cb e s) = finalgoal_ptr s \<and>
         walkable_path_ptr (timer_cb e s) = walkable_path_ptr s \<and>
         solver_calls (timer_cb e s) = solver_calls s \<and>
         flag_planning_busy (timer_cb e s) = False"
  using assms
  by (simp add: timer_cb_def timer_body_def Let_def publish_robot_status_marker_def empty_path_def)

theorem timer_cb_collision_branch_witness:
  "\<not> flag_planning_busy ex_state \<and> localmap_ptr ex_state = Some ex_grid \<and> grid_ok ex_grid \<and>
   finalgoal_ptr ex_state = Some (0.5, 0.5, 0) \<and>
   \<not> is_footprint_safe (memory ex_environment) ex_grid
        (GetFootprintCells ex_environment (footprint_ptr ex_state) ex_grid) \<and>
   pub_walkable_path (timer_cb ex_environment ex_state) =
     [\<lparr>stamp = 0, frame_id = ''odom'', poses = []\<rparr>] \<and>
   pub_marker_status (timer_cb ex_environment ex_state) = [''Collision detected''] \<and>
   finalgoal_ptr (timer_cb ex_environment ex_state) = Some (0.5, 0.5, 0) \<and>
   walkable_path_ptr (timer_cb ex_environment ex_state) = Some ex_blocked_path \<and>
   solver_calls (timer_cb ex_environment ex_state) = [] \<and>
   flag_planning_busy (timer_cb ex_environment ex_state) = False"
proof -
  have h: "\<not> flag_planning_busy ex_state" "localmap_ptr ex_state = Some ex_grid"
    and g: "finalgoal_ptr ex_state = Some (0.5, 0.5, 0)"
    by (simp_all add: ex_state_def)
  have f: "pub_walkable_path ex_state = []" "pub_marker_status ex_state = []"
    "path_frame_id ex_state = ''odom''" "walkable_path_ptr ex_state = Some ex_blocked_path"
    "solver_calls ex_state = []"
    by (simp_all add: ex_state_def)
  show ?thesis
    using timer_cb_collision_branch [OF h ex_grid_ok g ex_footprint_unsafe]
      h g f ex_grid_ok ex_footprint_unsafe
    by simp
qed

subsection \<open>The radial search\<close>

lemma ray_loop_general:
  assumes "k < length l" and "sorted_wrt (<) js"
  shows "ray_inv sample k js mx l (ray_loop sample k js (mx, l))"
  using assms
proof (induction js arbitrary: mx l)
  case Nil
  then show ?case by (simp add: ray_inv_def)
next
  case (Cons j js)
  have sorted: "sorted_wrt (<) js" and jmin: "\<forall>x\<in>set js. j < x"
    using Cons.prems(2) by simp_all
  let ?S' = "takeWhile (\<lambda>j. sample j \<noteq> None) js"
  have S'sub: "\<forall>x\<in>set ?S'. j < x" using jmin by (meson set_takeWhileD)
  show ?case
  proof (cases "sample j")
    case None
    then show ?thesis by (simp add: ray_inv_def)
  next
    case (Some s)
    have S: "takeWhile (\<lambda>j. sample j \<noteq> None) (j # js) = j # ?S'" using Some by simp
    show ?thesis
    proof (cases s)
      case NotFinite
      let ?r = "ray_loop sample k js (mx, l)"
      have r: "ray_loop sample k (j # js) (mx, l) = ?r" using Some NotFinite by simp
      have IH: "ray_inv sample k js mx l ?r" using Cons.IH [OF Cons.prems(1) sorted] .
      show ?thesis
      proof (cases "mx < fst ?r")
        case True
        with IH S'sub Some NotFinite show ?thesis
          unfolding r ray_inv_def Let_def S by (auto simp add: nth_list_update)
      next
        case False
        with IH S'sub Some NotFinite show ?thesis
          unfolding r ray_inv_def Let_def S by (auto simp add: nth_list_update)
      qed
    next
      case (Finite sc)
      show ?thesis
      proof (cases "sc > mx")
        case True
        let ?l' = "l[k := j]"
        let ?r = "ray_loop sample k js (sc, ?l')"
        have r: "ray_loop sample k (j # js) (mx, l) = ?r" using Some Finite True by simp
        have kl': "k < length ?l'" using Cons.prems(1) by simp
        have IH: "ray_inv sample k js sc ?l' ?r" using Cons.IH [OF kl' sorted] .
        show ?thesis
        proof (cases "sc < fst ?r")
          case True
          with IH S'sub \<open>sc > mx\<close> Some Finite show ?thesis
            unfolding r ray_inv_def Let_def S by (auto simp add: nth_list_update)
        next
          case False
          with IH S'sub \<open>sc > mx\<close> Some Finite Cons.prems(1) show ?thesis
            unfolding r ray_inv_def Let_def S by (auto simp add: nth_list_update)
        qed
      next
        case False
        let ?r = "ray_loop sample k js (mx, l)"
        have r: "ray_loop sample k (j # js) (mx, l) = ?r" using Some Finite False by simp
        have IH: "ray_inv sample k js mx l ?r" using Cons.IH [OF Cons.prems(1) sorted] .
        show ?thesis
        proof (cases "mx < fst ?r")
          case True
          with IH S'sub False Some Finite show ?thesis
            unfolding r ray_inv_def Let_def S by (auto simp add: nth_list_update)
        next
          case F2: False
          with IH S'sub False Some Finite show ?thesis
            unfolding r ray_inv_def Let_def S by (auto simp add: nth_list_update)
        qed
      qed
    qed
  qed
qed

lemma max_element_loop_spec:
  assumes "b < length pre" and "\<forall>q<length pre. pre ! q \<le> pre ! b" and "\<forall>q<b. pre ! q < pre ! b"
  shows "max_element_loop vs (length pre) (b, pre ! b) < length (pre @ vs) \<and>
         (\<forall>q<length (pre @ vs). (pre @ vs) ! q \<le> (pre @ vs) ! max_element_loop vs (length pre) (b, pre ! b)) \<and>
         (\<forall>q<max_element_loop vs (length pre) (b, pre ! b).
             (pre @ vs) ! q < (pre @ vs) ! max_element_loop vs (length pre) (b, pre ! b))"
  using assms
proof (induction vs arbitrary: pre b)
  case Nil
  then show ?case by simp
next
  case (Cons v vs)
  show ?case
  proof (cases "pre ! b < v")
    case True
    let ?pre = "pre @ [v]"
    have 1: "length pre < length ?pre" by simp
    have 2: "\<forall>q<length ?pre. ?pre ! q \<le> ?pre ! length pre"
      using Cons.prems(2) True by (auto simp add: nth_append less_Suc_eq intro: order_trans less_imp_le)
    have 3: "\<forall>q<length pre. ?pre ! q < ?pre ! length pre"
      using Cons.prems(2) True by (auto simp add: nth_append intro: le_less_trans)
    have "max_element_loop (v # vs) (length pre) (b, pre ! b) =
          max_element_loop vs (length ?pre) (length pre, ?pre ! length pre)"
      using True by simp
    then show ?thesis using Cons.IH [OF 1 2 3] by simp
  next
    case False
    let ?pre = "pre @ [v]"
    have 1: "b < length ?pre" using Cons.prems(1) by simp
    have e: "?pre ! b = pre ! b" using Cons.prems(1) by (simp add: nth_append)
    have 2: "\<forall>q<length ?pre. ?pre ! q \<le> ?pre ! b"
      using Cons.prems(2) False unfolding e by (auto simp add: nth_append less_Suc_eq)
    have 3: "\<forall>q<b. ?pre ! q < ?pre ! b"
      using Cons.prems(1,3) unfolding e by (auto simp add: nth_append)
    have "max_element_loop (v # vs) (length pre) (b, pre ! b) =
          max_element_loop vs (length ?pre) (b, ?pre ! b)"
      using False by (simp add: e)
    then show ?thesis using Cons.IH [OF 1 2 3] by simp
  qed
qed

lemma argmax_spec:
  assumes "vs \<noteq> []"
  shows "argmax vs < length vs \<and> (\<forall>q<length vs. vs ! q \<le> vs ! argmax vs) \<and>
         (\<forall>q<argmax vs. vs ! q < vs ! argmax vs)"
proof -
  obtain v rest where vs: "vs = v # rest" using assms by (cases vs) auto
  have "argmax vs = max_element_loop rest (length [v]) (0, [v] ! 0)"
    by (simp add: argmax_def vs)
  then show ?thesis
    using max_element_loop_spec [of 0 "[v]" rest] by (simp add: vs)
qed

lemma search_inv_step:
  assumes "n < 15" and "search_inv mem m offx offy g D n st"
  shows "search_inv mem m offx offy g D (Suc n) (angle_step mem m offx offy g D st (16 - int n))"
proof -
  let ?sample = "ray_sample mem m offx offy g D (16 - int n)"
  let ?l = "candidate_j_list st"
  let ?r = "ray_loop ?sample n [3..max_distance_idx] (0, ?l)"
  have len: "length ?l = 15" and ln: "?l ! n = 0"
    and lsc: "length (candidate_score_list st) = n" and lp: "length (candidate_points st) = 2 * n"
    using assms by (simp_all add: search_inv_def)
  have old: "\<forall>p<n. ray_kept (ray_sample mem m offx offy g D (16 - int p))
                 (candidate_score_list st ! p) (?l ! p) \<and>
              candidate_points st ! (2 * p + 1) = candidate_point offx offy (16 - int p) (?l ! p)"
    and zero: "\<forall>q. n \<le> q \<and> q < 15 \<longrightarrow> ?l ! q = 0"
    using assms(2) by (simp_all add: search_inv_def)
  have k: "n < length ?l" using assms(1) len by simp
  have inv: "ray_inv ?sample n [3..max_distance_idx] 0 ?l ?r"
    using ray_loop_general [OF k sorted_wrt_upto] .
  have rl: "length (snd ?r) = 15" and other: "\<forall>q. q \<noteq> n \<longrightarrow> snd ?r ! q = ?l ! q"
    using inv len by (simp_all add: ray_inv_def Let_def)
  have kept: "ray_kept ?sample (fst ?r) (snd ?r ! n)"
    using inv ln unfolding ray_inv_def ray_kept_def Let_def by (auto split: if_splits)
  have nat: "nat (16 - (16 - int n)) = n" by simp
  have step: "angle_step mem m offx offy g D st (16 - int n) =
      \<lparr>candidate_score_list = candidate_score_list st @ [fst ?r],
       candidate_j_list = snd ?r,
       candidate_points = candidate_points st @
          [(offx, offy, 0), candidate_point offx offy (16 - int n) (snd ?r ! n)],
       mrk_array = mrk_array st @ [CandidateScore (16 - int n) (fst ?r)
          (getX (candidate_point offx offy (16 - int n) (snd ?r ! n)),
           getY (candidate_point offx offy (16 - int n) (snd ?r ! n)), 0.8)]\<rparr>"
    unfolding angle_step_def Let_def nat candidate_point_def by simp
  show ?thesis
    unfolding step search_inv_def
    using lsc lp rl other kept old zero
    by (auto simp add: nth_append less_Suc_eq)
qed

lemma search_inv_foldl:
  "n \<le> 15 \<Longrightarrow>
   search_inv mem m offx offy g D n
     (foldl (angle_step mem m offx offy g D)
        \<lparr>candidate_score_list = [], candidate_j_list = replicate 15 0,
         candidate_points = [], mrk_array = []\<rparr>
        (map (\<lambda>p. 16 - int p) [0..<n]))"
proof (induction n)
  case 0
  show ?case by (simp add: search_inv_def)
next
  case (Suc n)
  then have "n < 15" "n \<le> 15" by simp_all
  then show ?case using Suc.IH search_inv_step [of n mem m offx offy g D] by simp
qed

lemma angle_indices_eq: "angle_indices = map (\<lambda>p. 16 - int p) [0..<15]"
  by code_simp

lemma radial_search_inv:
  "search_inv mem m offx offy g D 15 (radial_search mem m offx offy g D)"
  unfolding radial_search_def angle_indices_eq by (rule search_inv_foldl) simp

lemma generate_subgoal_search:
  assumes "finalgoal_out_of_range m (tf_apply (tf_inverse tf_base2odom) finalgoal)"
  shows "\<exists>p<15. fst (generate_subgoal mem m finalgoal tf_base2odom s) =
           candidate_point (path_start_offsetx s) (path_start_offsety s) (16 - int p)
             (candidate_j_list (radial_search mem m (path_start_offsetx s) (path_start_offsety s)
                (tf_apply (tf_inverse tf_base2odom) finalgoal)
                (hypot (getX (tf_apply (tf_inverse tf_base2odom) finalgoal))
                       (getY (tf_apply (tf_inverse tf_base2odom) finalgoal)))) ! p) \<and>
         (\<forall>q<15. candidate_score_list (radial_search mem m (path_start_offsetx s) (path_start_offsety s)
                (tf_apply (tf_inverse tf_base2odom) finalgoal)
                (hypot (getX (tf_apply (tf_inverse tf_base2odom) finalgoal))
                       (getY (tf_apply (tf_inverse tf_base2odom) finalgoal)))) ! q
              \<le> candidate_score_list (radial_search mem m (path_start_offsetx s) (path_start_offsety s)
                (tf_apply (tf_inverse tf_base2odom) finalgoal)
                (hypot (getX (tf_apply (tf_inverse tf_base2odom) finalgoal))
                       (getY (tf_apply (tf_inverse tf_base2odom) finalgoal)))) ! p) \<and>
         (\<forall>q<p. candidate_score_list (radial_search mem m (path_start_offsetx s) (path_start_offsety s)
                (tf_apply (tf_inverse tf_base2odom) finalgoal)
                (hypot (getX (tf_apply (tf_inverse tf_base2odom) finalgoal))
                       (getY (tf_apply (tf_inverse tf_base2odom) finalgoal)))) ! q
              < candidate_score_list (radial_search mem m (path_start_offsetx s) (path_start_offsety s)
                (tf_apply (tf_inverse tf_base2odom) finalgoal)
                (hypot (getX (tf_apply (tf_inverse tf_base2odom) finalgoal))
                       (getY (tf_apply (tf_inverse tf_base2odom) finalgoal)))) ! p)"
proof -
  define g where "g = tf_apply (tf_inverse tf_base2odom) finalgoal"
  define st where "st = radial_search mem m (path_start_offsetx s) (path_start_offsety s) g
     (hypot (getX g) (getY g))"
  have inv: "search_inv mem m (path_start_offsetx s) (path_start_offsety s) g (hypot (getX g) (getY g)) 15 st"
    unfolding st_def by (rule radial_search_inv)
  then have ls: "length (candidate_score_list st) = 15" and lp: "length (candidate_points st) = 30"
    and pts: "\<forall>p<15. candidate_points st ! (2 * p + 1) =
        candidate_point (path_start_offsetx s) (path_start_offsety s) (16 - int p) (candidate_j_list st ! p)"
    by (simp_all add: search_inv_def)
  let ?a = "argmax (candidate_score_list st)"
  have ne: "candidate_score_list st \<noteq> []" using ls by auto
  have a: "?a < 15" "\<forall>q<15. candidate_score_list st ! q \<le> candidate_score_list st ! ?a"
    "\<forall>q<?a. candidate_score_list st ! q < candidate_score_list st ! ?a"
    using argmax_spec [OF ne] ls by simp_all
  have "fst (generate_subgoal mem m finalgoal tf_base2odom s) =
        pose_at mem (candidate_points st) (int ?a * 2 + 1)"
    using assms by (simp add: generate_subgoal_def Let_def g_def st_def)
  also have "\<dots> = candidate_points st ! (2 * ?a + 1)"
    using a(1) lp by (simp add: pose_at_def nat_add_distrib nat_mult_distrib mult.commute)
  also have "\<dots> = candidate_point (path_start_offsetx s) (path_start_offsety s) (16 - int ?a)
       (candidate_j_list st ! ?a)"
    using pts a(1) by simp
  finally show ?thesis
    using a unfolding st_def g_def by blast
qed

lemma c_round_minus_one: "- 3 / 2 < v \<Longrightarrow> v \<le> - 1 / 2 \<Longrightarrow> c_round v = - 1"
  by (simp add: c_round_def ceiling_eq_iff)

lemma c_round_one: "1 / 2 \<le> v \<Longrightarrow> v < 3 / 2 \<Longrightarrow> c_round v = 1"
  by (simp add: c_round_def floor_eq_iff)

lemma coarse_ray_geometry:
  assumes "2 \<le> i" "i \<le> 16" "3 \<le> j" "j \<le> 13"
  shows "0 \<le> 0.6 * real_of_int j * sin (pi / 18 * real_of_int i) \<and>
         0.6 * real_of_int j * sin (pi / 18 * real_of_int i) \<le> 7.8 \<and>
         \<bar>0.6 * real_of_int j * cos (pi / 18 * real_of_int i)\<bar> \<le> 7.8"
proof -
  let ?th = "pi / 18 * real_of_int i"
  let ?t = "0.6 * real_of_int j"
  have th0: "0 \<le> ?th" using assms(1) by simp
  have "real_of_int i \<le> 18" using assms(2) by simp
  then have "pi / 18 * real_of_int i \<le> pi / 18 * 18"
    by (intro mult_left_mono) simp_all
  then have th1: "?th \<le> pi" by simp
  have s0: "0 \<le> sin ?th" using th0 th1 by (rule sin_ge_zero)
  have s1: "sin ?th \<le> 1" by simp
  have c1: "\<bar>cos ?th\<bar> \<le> 1" by (rule abs_cos_le_one)
  have t0: "0 \<le> ?t" using assms(3) by simp
  have t1: "?t \<le> 7.8" using assms(4) by simp
  have a: "0 \<le> ?t * sin ?th" using t0 s0 by (rule mult_nonneg_nonneg)
  have "?t * sin ?th \<le> ?t * 1" using s1 t0 by (rule mult_left_mono)
  then have b: "?t * sin ?th \<le> 7.8" using t1 by simp
  have "\<bar>?t * cos ?th\<bar> = ?t * \<bar>cos ?th\<bar>" using t0 by (simp add: abs_mult)
  also have "\<dots> \<le> ?t * 1" using c1 t0 by (rule mult_left_mono)
  finally have c: "\<bar>?t * cos ?th\<bar> \<le> 7.8" using t1 by simp
  show ?thesis using a b c by simp
qed

lemma ray_sample_alt:
  "ray_sample mem m offx offy g D i j =
     (let c = candidate_point offx offy i j;
          idx = cell_index m c;
          cost = real_of_int (get_local_max_cost mem m idx)
      in if cost > real_of_int kThresObstacleDangerCost \<or> data_at mem m idx = - 1 then None
         else if D = 0 then Some NotFinite
         else Some (Finite (fl_score mem i j
                ((1 - cost / 100) + (1 - hypot (getX c - getX g) (getY c - getY g) / (2 * D))))))"
proof -
  have x: "\<And>t a. t - a + offx = offx + t - (a::real)"
    by simp
  have y: "\<And>t a. t - a + offy = offy + t - (a::real)"
    by simp
  have x2: "\<And>t a. t + offx - a = offx + t - (a::real)"
    by simp
  have y2: "\<And>t a. t + offy - a = offy + t - (a::real)"
    by simp
  have d: "\<And>a. a / D / 2 = a / (2 * D)" by simp
  show ?thesis
    unfolding ray_sample_def Let_def cell_index_def candidate_point_def getX_def getY_def
      fst_conv snd_conv x y x2 y2 d
    by (rule refl)
qed

lemma near_goal_distance: "hypot (getX near_goal) (getY near_goal) = 1 / 1000"
proof -
  have "sqrt ((1 / 1000)\<^sup>2) = \<bar>1 / 1000 :: real\<bar>" by (rule real_sqrt_abs)
  then show ?thesis by (simp add: hypot_def near_goal_def getX_def getY_def)
qed

lemma coarse_cell_index:
  assumes "2 \<le> i" "i \<le> 16" "3 \<le> j" "j \<le> 13"
  shows "cell_index (coarse_grid c) (candidate_point 0.44 0 i j) = 0"
proof -
  let ?s = "0.6 * real_of_int j * sin (pi / 18 * real_of_int i)"
  let ?c = "0.6 * real_of_int j * cos (pi / 18 * real_of_int i)"
  have g: "0 \<le> ?s" "?s \<le> 7.8" "\<bar>?c\<bar> \<le> 7.8" using coarse_ray_geometry [OF assms] by simp_all
  have x: "c_round ((getX (candidate_point 0.44 0 i j) - map_origin_x (coarse_grid c)) /
             map_resolution (coarse_grid c)) = - 1"
    using g(1,2) by (intro c_round_minus_one) (simp_all add: candidate_point_def coarse_grid_def getX_def)
  have y: "c_round ((getY (candidate_point 0.44 0 i j) - map_origin_y (coarse_grid c)) /
             map_resolution (coarse_grid c)) = 1"
    using g(3) by (intro c_round_one) (simp_all add: candidate_point_def coarse_grid_def getY_def abs_le_iff)
  show ?thesis unfolding cell_index_def Let_def x y by (simp add: coarse_grid_def)
qed

lemma coarse_kernel_bound: "kernel_bound 0.6 (coarse_grid c) = 0"
  by (simp add: kernel_bound_def kernel_size_def coarse_grid_def c_rem_def c_div_def)

lemma coarse_max_cost: "get_local_max_cost mem (coarse_grid c) 0 = (if c > 0 then c else 0)"
  unfolding get_local_max_cost_def scan_max_cost_def coarse_kernel_bound Let_def window_offsets_def
  by (simp add: max_cost_step_def coarse_grid_def data_at_def c_rem_def)

lemma coarse_raw: "data_at mem (coarse_grid c) 0 = c"
  by (simp add: data_at_def coarse_grid_def)

text \<open>On the free coarse grid every candidate is sampled, and its score is negative: the
  candidate is at least 0.44 m from the goal, the goal 1 mm from the robot, so the exact score
  is at most \<open>2 - 0.44 / 0.002\<close>, far below what rounding can make up for.\<close>

lemma coarse_free_sample:
  assumes "2 \<le> i" "i \<le> 16" "3 \<le> j" "j \<le> 13"
    and "\<forall>i j v. \<bar>fl_score mem i j v - v\<bar> \<le> 1"
  shows "\<exists>v. ray_sample mem (coarse_grid 0) 0.44 0 near_goal (1 / 1000) i j = Some (Finite v) \<and> v < 0"
proof -
  let ?p = "candidate_point 0.44 0 i j"
  let ?d = "hypot (getX ?p - getX near_goal) (getY ?p - getY near_goal)"
  let ?exact = "(1 - 0 / 100) + (1 - ?d / (2 * (1 / 1000)))"
  have g: "0 \<le> 0.6 * real_of_int j * sin (pi / 18 * real_of_int i)"
    using coarse_ray_geometry [OF assms(1-4)] by simp
  have "\<bar>getX ?p - getX near_goal\<bar> \<le> ?d" unfolding hypot_def by (rule real_sqrt_ge_abs1)
  moreover have "0.44 \<le> getX ?p - getX near_goal"
    using g by (simp add: candidate_point_def near_goal_def getX_def)
  ultimately have d: "0.44 \<le> ?d" by linarith
  have sample: "ray_sample mem (coarse_grid 0) 0.44 0 near_goal (1 / 1000) i j =
        Some (Finite (fl_score mem i j ?exact))"
    unfolding ray_sample_alt Let_def coarse_cell_index [OF assms(1-4)] coarse_max_cost coarse_raw
    by (simp add: kThresObstacleDangerCost_def)
  have "?exact \<le> - 218" using d by simp
  moreover have "\<bar>fl_score mem i j ?exact - ?exact\<bar> \<le> 1" using assms(5) by blast
  ultimately have "fl_score mem i j ?exact < 0" by linarith
  with sample show ?thesis by blast
qed

lemma coarse_blocked_sample:
  assumes "2 \<le> i" "i \<le> 16" "3 \<le> j" "j \<le> 13"
  shows "ray_sample mem (coarse_grid 100) 0.44 0 near_goal (1 / 1000) i j = None"
  unfolding ray_sample_alt Let_def coarse_cell_index [OF assms] coarse_max_cost
  by (simp add: kThresObstacleDangerCost_def)

lemma angle_indices_set: "i \<in> set angle_indices \<longleftrightarrow> 2 \<le> i \<and> i \<le> 16"
  by (simp only: angle_indices_def set_rev set_upto atLeastAtMost_iff)

lemma angle_slot:
  assumes "2 \<le> i" "i \<le> 16"
  shows "nat (16 - i) < 15 \<and> 16 - int (nat (16 - i)) = i"
  using assms by simp

lemma radial_search_rays:
  assumes "i \<in> set angle_indices"
  shows "ray_kept (ray_sample mem m offx offy g D i)
           (candidate_score_list (radial_search mem m offx offy g D) ! nat (16 - i))
           (candidate_j_list (radial_search mem m offx offy g D) ! nat (16 - i))"
proof -
  have i: "nat (16 - i) < 15" "16 - int (nat (16 - i)) = i"
    using assms angle_slot [of i] by (simp_all add: angle_indices_set)
  have "\<forall>p<15. ray_kept (ray_sample mem m offx offy g D (16 - int p))
                 (candidate_score_list (radial_search mem m offx offy g D) ! p)
                 (candidate_j_list (radial_search mem m offx offy g D) ! p)"
    using radial_search_inv [of mem m offx offy g D] by (simp add: search_inv_def)
  then show ?thesis using i by metis
qed

lemma ray_kept_nothing:
  assumes "ray_kept sample sc kj"
    and "\<forall>j\<in>set (takeWhile (\<lambda>j. sample j \<noteq> None) [3..max_distance_idx]).
           \<forall>v. sample j = Some (Finite v) \<longrightarrow> v \<le> 0"
  shows "sc = 0 \<and> kj = 0"
proof (cases "0 < sc")
  case True
  then have "kj \<in> set (takeWhile (\<lambda>j. sample j \<noteq> None) [3..max_distance_idx])"
    "sample kj = Some (Finite sc)"
    using assms(1) by (simp_all add: ray_kept_def Let_def)
  then have "sc \<le> 0" using assms(2) by blast
  with True show ?thesis by simp
next
  case False
  then show ?thesis using assms(1) by (simp add: ray_kept_def Let_def)
qed

lemma max_distance_idx_eq: "max_distance_idx = 13"
  by (simp add: max_distance_idx_def c_round_def)

lemma radial_search_lengths:
  "length (candidate_score_list (radial_search mem m offx offy g D)) = 15 \<and>
   length (candidate_j_list (radial_search mem m offx offy g D)) = 15"
  using radial_search_inv [of mem m offx offy g D] by (simp add: search_inv_def)

lemma radial_search_nothing_kept:
  assumes "\<forall>i\<in>set angle_indices.
     \<forall>j\<in>set (takeWhile (\<lambda>j. ray_sample mem m offx offy g D i j \<noteq> None) [3..max_distance_idx]).
        \<forall>v. ray_sample mem m offx offy g D i j = Some (Finite v) \<longrightarrow> v \<le> 0"
  shows "candidate_score_list (radial_search mem m offx offy g D) = replicate 15 0 \<and>
         candidate_j_list (radial_search mem m offx offy g D) = replicate 15 0"
proof -
  let ?st = "radial_search mem m offx offy g D"
  have each: "candidate_score_list ?st ! p = 0 \<and> candidate_j_list ?st ! p = 0" if "p < 15" for p
  proof -
    have i: "16 - int p \<in> set angle_indices" "nat (16 - (16 - int p)) = p"
      using that by (simp_all add: angle_indices_set)
    show ?thesis
      using ray_kept_nothing [OF radial_search_rays [OF i(1), of mem m offx offy g D]] assms i
      by simp
  qed
  have "candidate_score_list ?st = replicate 15 0"
    using radial_search_lengths [of mem m offx offy g D] each by (intro nth_equalityI) simp_all
  moreover have "candidate_j_list ?st = replicate 15 0"
    using radial_search_lengths [of mem m offx offy g D] each by (intro nth_equalityI) simp_all
  ultimately show ?thesis by simp
qed

lemma candidate_point_zero: "candidate_point offx offy i 0 = (offx, offy, 0)"
  by (simp add: candidate_point_def)

lemma coarse_grid_ok: "grid_ok (coarse_grid c)"
  by (simp add: grid_ok_def coarse_grid_def)

lemma near_goal_base_frame: "tf_apply (tf_inverse ex_tf) near_goal = near_goal"
  by code_simp

lemma near_goal_out_of_range:
  "finalgoal_out_of_range (coarse_grid c) (tf_apply (tf_inverse ex_tf) near_goal)"
  unfolding near_goal_base_frame
  by (simp add: finalgoal_out_of_range_def goal_row_def goal_col_def coarse_grid_def near_goal_def
      getX_def getY_def c_int_def)

lemma ex_state_offsets: "path_start_offsetx ex_state = 0.44" "path_start_offsety ex_state = 0"
  by (simp_all add: ex_state_def)

lemma coarse_subgoal:
  assumes "candidate_j_list (radial_search mem (coarse_grid c) 0.44 0 near_goal (1 / 1000)) =
     replicate 15 0"
  shows "fst (generate_subgoal mem (coarse_grid c) near_goal ex_tf ex_state) = (0.44, 0, 0)"
proof -
  obtain p where "p < 15"
    "fst (generate_subgoal mem (coarse_grid c) near_goal ex_tf ex_state) =
       candidate_point 0.44 0 (16 - int p)
         (candidate_j_list (radial_search mem (coarse_grid c) 0.44 0 near_goal (1 / 1000)) ! p)"
    using generate_subgoal_search [OF near_goal_out_of_range, of mem c ex_state]
    unfolding near_goal_base_frame near_goal_distance ex_state_offsets by blast
  then show ?thesis using assms by (simp add: candidate_point_zero)
qed

text \<open>What the search selects, for every input that enters it: each ray keeps what
  \<open>ray_kept\<close> describes, and the returned point is the candidate kept by an angle whose score
  is the largest, the first such angle in the order from 16 down to 2.\<close>

lemma radial_search_selection:
  assumes "finalgoal_out_of_range m (tf_apply (tf_inverse tf_base2odom) finalgoal)"
  shows "let g = tf_apply (tf_inverse tf_base2odom) finalgoal;
             D = hypot (getX g) (getY g);
             offx = path_start_offsetx s;
             offy = path_start_offsety s;
             sample = ray_sample mem m offx offy g D;
             st = radial_search mem m offx offy g D;
             score = (\<lambda>i. candidate_score_list st ! nat (16 - i));
             kept = (\<lambda>i. candidate_j_list st ! nat (16 - i))
         in (\<forall>i\<in>set angle_indices. ray_kept (sample i) (score i) (kept i)) \<and>
            (\<exists>i\<in>set angle_indices.
               fst (generate_subgoal mem m finalgoal tf_base2odom s) =
                 candidate_point offx offy i (kept i) \<and>
               (\<forall>i'\<in>set angle_indices. score i' \<le> score i) \<and>
               (\<forall>i'\<in>set angle_indices. i < i' \<longrightarrow> score i' < score i))"
proof -
  define g where "g = tf_apply (tf_inverse tf_base2odom) finalgoal"
  define D where "D = hypot (getX g) (getY g)"
  define offx where "offx = path_start_offsetx s"
  define offy where "offy = path_start_offsety s"
  define st where "st = radial_search mem m offx offy g D"
  define score where "score = (\<lambda>i. candidate_score_list st ! nat (16 - i))"
  define kept where "kept = (\<lambda>i. candidate_j_list st ! nat (16 - i))"
  have rays: "\<forall>i\<in>set angle_indices. ray_kept (ray_sample mem m offx offy g D i) (score i) (kept i)"
    unfolding score_def kept_def st_def using radial_search_rays by blast
  obtain p where p: "p < 15"
      "fst (generate_subgoal mem m finalgoal tf_base2odom s) =
         candidate_point offx offy (16 - int p) (candidate_j_list st ! p)"
      "\<forall>q<15. candidate_score_list st ! q \<le> candidate_score_list st ! p"
      "\<forall>q<p. candidate_score_list st ! q < candidate_score_list st ! p"
    using generate_subgoal_search [OF assms, of mem s]
    unfolding st_def g_def offx_def offy_def D_def by blast
  let ?i = "16 - int p"
  have i: "?i \<in> set angle_indices" "nat (16 - ?i) = p"
    using p(1) by (simp_all add: angle_indices_set)
  have pt: "fst (generate_subgoal mem m finalgoal tf_base2odom s) = candidate_point offx offy ?i (kept ?i)"
    using p(2) i(2) by (simp add: kept_def)
  have le: "\<forall>i'\<in>set angle_indices. score i' \<le> score ?i"
  proof
    fix i' assume "i' \<in> set angle_indices"
    then have "nat (16 - i') < 15" unfolding angle_indices_set by arith
    then show "score i' \<le> score ?i" using p(3) i(2) by (simp add: score_def)
  qed
  have lt: "\<forall>i'\<in>set angle_indices. ?i < i' \<longrightarrow> score i' < score ?i"
  proof (intro ballI impI)
    fix i' assume "i' \<in> set angle_indices" and "?i < i'"
    then have "nat (16 - i') < p" unfolding angle_indices_set by arith
    then show "score i' < score ?i" using p(4) i(2) by (simp add: score_def)
  qed
  have sel: "\<exists>i\<in>set angle_indices.
               fst (generate_subgoal mem m finalgoal tf_base2odom s) =
                 candidate_point offx offy i (kept i) \<and>
               (\<forall>i'\<in>set angle_indices. score i' \<le> score i) \<and>
               (\<forall>i'\<in>set angle_indices. i < i' \<longrightarrow> score i' < score i)"
    using i(1) pt le lt by blast
  show ?thesis
    using rays sel
    unfolding Let_def score_def kept_def st_def g_def offx_def offy_def D_def by blast
qed

text \<open>
  Claim C1. The claim asks each ray to keep the distance step with the largest score. The
  source means to (\<^verbatim>\<open>// Find the max score among the candidates in same direction\<close>), but
  it starts the running maximum \<^verbatim>\<open>max_j_score\<close> at \<open>0.0\<close>, so a step is recorded only when
  its score is positive. The theorem evaluates the search where that matters: the map is the
  coarse grid with its one cell free, the path start offset \<open>(0.44, 0)\<close>, the goal 1 mm beside
  the robot and beyond the last row of the grid. Whatever the memory beyond the arrays holds and
  whatever the rounding of a score (up to 1), every ray samples all its steps 3 to 13 as safe
  cells with a number for a score, each score is negative, and the search records no step on any
  ray (step 0, score 0) and returns the path start offset instead of the best candidate.
\<close>

theorem radial_search_keeps_no_step_when_scores_negative:
  assumes "\<forall>i j v. \<bar>fl_score mem i j v - v\<bar> \<le> 1"
  shows "finalgoal_out_of_range (coarse_grid 0) (tf_apply (tf_inverse ex_tf) near_goal) \<and>
         tf_apply (tf_inverse ex_tf) near_goal = near_goal \<and>
         hypot (getX near_goal) (getY near_goal) = 1 / 1000 \<and>
         (\<forall>i\<in>set angle_indices. \<forall>j\<in>set [3..max_distance_idx].
            \<exists>v. ray_sample mem (coarse_grid 0) 0.44 0 near_goal (1 / 1000) i j = Some (Finite v) \<and>
                v < 0) \<and>
         candidate_score_list (radial_search mem (coarse_grid 0) 0.44 0 near_goal (1 / 1000)) =
           replicate 15 0 \<and>
         candidate_j_list (radial_search mem (coarse_grid 0) 0.44 0 near_goal (1 / 1000)) =
           replicate 15 0 \<and>
         fst (generate_subgoal mem (coarse_grid 0) near_goal ex_tf ex_state) = (0.44, 0, 0)"
proof -
  have samples: "\<forall>i\<in>set angle_indices. \<forall>j\<in>set [3..max_distance_idx].
            \<exists>v. ray_sample mem (coarse_grid 0) 0.44 0 near_goal (1 / 1000) i j = Some (Finite v) \<and>
                v < 0"
  proof (intro ballI)
    fix i j
    assume "i \<in> set angle_indices" and "j \<in> set [3..max_distance_idx]"
    then have "2 \<le> i" "i \<le> 16" "3 \<le> j" "j \<le> 13"
      by (simp_all only: angle_indices_set max_distance_idx_eq set_upto atLeastAtMost_iff)
    then show "\<exists>v. ray_sample mem (coarse_grid 0) 0.44 0 near_goal (1 / 1000) i j = Some (Finite v) \<and>
                v < 0"
      using assms by (rule coarse_free_sample)
  qed
  have kept: "candidate_score_list (radial_search mem (coarse_grid 0) 0.44 0 near_goal (1 / 1000)) =
       replicate 15 0 \<and>
     candidate_j_list (radial_search mem (coarse_grid 0) 0.44 0 near_goal (1 / 1000)) =
       replicate 15 0"
  proof (rule radial_search_nothing_kept, intro ballI allI impI)
    fix i j v
    assume i: "i \<in> set angle_indices"
      and j: "j \<in> set (takeWhile (\<lambda>j. ray_sample mem (coarse_grid 0) 0.44 0 near_goal (1 / 1000) i j \<noteq> None)
               [3..max_distance_idx])"
      and v: "ray_sample mem (coarse_grid 0) 0.44 0 near_goal (1 / 1000) i j = Some (Finite v)"
    have "j \<in> set [3..max_distance_idx]" using j by (rule set_takeWhileD [THEN conjunct1])
    then show "v \<le> 0" using samples i v by fastforce
  qed
  show ?thesis
    using near_goal_out_of_range [of 0] near_goal_base_frame near_goal_distance samples kept
      coarse_subgoal [of mem 0]
    by simp
qed

text \<open>With exact scores and zeros beyond the arrays: the steps 3 to 13 of the ray 16 are all
  sampled, the first of them with a negative score, and no step is kept.\<close>

theorem radial_search_keeps_no_step_when_scores_negative_witness:
  "\<bar>fl_score ex_memory 16 3 (- 995) - (- 995)\<bar> \<le> 1 \<and>
   finalgoal_out_of_range (coarse_grid 0) (tf_apply (tf_inverse ex_tf) near_goal) \<and>
   list_all (\<lambda>j. ray_sample ex_memory (coarse_grid 0) 0.44 0 near_goal (1 / 1000) 16 j \<noteq> None)
     [3, 4, 5, 6, 7, 8, 9, 10, 11, 12, 13] \<and>
   candidate_score_list (radial_search ex_memory (coarse_grid 0) 0.44 0 near_goal (1 / 1000)) !
     nat (16 - 16) = 0 \<and>
   candidate_j_list (radial_search ex_memory (coarse_grid 0) 0.44 0 near_goal (1 / 1000)) !
     nat (16 - 16) = 0 \<and>
   fst (generate_subgoal ex_memory (coarse_grid 0) near_goal ex_tf ex_state) = (0.44, 0, 0)"
proof -
  have h: "\<forall>i j v. \<bar>fl_score ex_memory i j v - v\<bar> \<le> 1"
    by (simp add: ex_memory_def)
  have r: "set [3..max_distance_idx] = set [3, 4, 5, 6, 7, 8, 9, 10, 11, 12, 13 :: int]"
    by (simp add: max_distance_idx_eq upto_rec1)
  have a: "16 \<in> set angle_indices" by (simp add: angle_indices_set)
  have "\<forall>j\<in>set [3..max_distance_idx].
          \<exists>v. ray_sample ex_memory (coarse_grid 0) 0.44 0 near_goal (1 / 1000) 16 j = Some (Finite v) \<and> v < 0"
    using radial_search_keeps_no_step_when_scores_negative [OF h] a by blast
  then have s: "list_all (\<lambda>j. ray_sample ex_memory (coarse_grid 0) 0.44 0 near_goal (1 / 1000) 16 j \<noteq> None)
     [3, 4, 5, 6, 7, 8, 9, 10, 11, 12, 13]"
    unfolding list_all_iff r by fastforce
  have f: "\<bar>fl_score ex_memory 16 3 (- 995) - (- 995)\<bar> \<le> 1"
    by (simp add: ex_memory_def)
  have k: "finalgoal_out_of_range (coarse_grid 0) (tf_apply (tf_inverse ex_tf) near_goal)"
    "candidate_score_list (radial_search ex_memory (coarse_grid 0) 0.44 0 near_goal (1 / 1000)) =
       replicate 15 0"
    "candidate_j_list (radial_search ex_memory (coarse_grid 0) 0.44 0 near_goal (1 / 1000)) =
       replicate 15 0"
    "fst (generate_subgoal ex_memory (coarse_grid 0) near_goal ex_tf ex_state) = (0.44, 0, 0)"
    using radial_search_keeps_no_step_when_scores_negative [OF h] by blast+
  have z: "replicate 15 (0::real) ! nat (16 - 16) = 0" "replicate 15 (0::int) ! nat (16 - 16) = 0"
    by simp_all
  show ?thesis
    unfolding k(2,3) z using f k(1,4) s by blast
qed

subsection \<open>A search without a safe cell\<close>

text \<open>
  Claim C10. Let the map be well formed and the goal out of range. If no ray samples a safe
  cell (the first candidate of every ray ends the ray), every candidate score and every recorded
  distance step stays 0; and whenever all of them are 0, \<^verbatim>\<open>generate_subgoal\<close> returns the
  point \<open>(path_start_offsetx, path_start_offsety)\<close>. With the default offsets this is
  \<open>(0.44, 0)\<close>, which the caller's test \<^verbatim>\<open>x == 0 && y == 0\<close> for the value of the recovery
  does not match.
\<close>

theorem generate_subgoal_without_safe_cell:
  assumes "grid_ok m"
    and "finalgoal_out_of_range m (tf_apply (tf_inverse tf_base2odom) finalgoal)"
  shows "let g = tf_apply (tf_inverse tf_base2odom) finalgoal;
             st = radial_search mem m (path_start_offsetx s) (path_start_offsety s) g
                    (hypot (getX g) (getY g));
             subgoal_pt = fst (generate_subgoal mem m finalgoal tf_base2odom s)
         in ((\<forall>i\<in>set angle_indices.
                ray_sample mem m (path_start_offsetx s) (path_start_offsety s) g
                  (hypot (getX g) (getY g)) i 3 = None) \<longrightarrow>
             candidate_score_list st = replicate 15 0 \<and> candidate_j_list st = replicate 15 0) \<and>
            (candidate_score_list st = replicate 15 0 \<and> candidate_j_list st = replicate 15 0 \<longrightarrow>
             subgoal_pt = (path_start_offsetx s, path_start_offsety s, 0)) \<and>
            (candidate_score_list st = replicate 15 0 \<and> candidate_j_list st = replicate 15 0 \<and>
             path_start_offsetx s = 0.44 \<and> path_start_offsety s = 0 \<longrightarrow>
             subgoal_pt = (0.44, 0, 0) \<and> \<not> (getX subgoal_pt = 0 \<and> getY subgoal_pt = 0))"
proof -
  define g where "g = tf_apply (tf_inverse tf_base2odom) finalgoal"
  define offx where "offx = path_start_offsetx s"
  define offy where "offy = path_start_offsety s"
  define D where "D = hypot (getX g) (getY g)"
  define st where "st = radial_search mem m offx offy g D"
  define subgoal_pt where "subgoal_pt = fst (generate_subgoal mem m finalgoal tf_base2odom s)"
  have a: "candidate_score_list st = replicate 15 0 \<and> candidate_j_list st = replicate 15 0"
    if h: "\<forall>i\<in>set angle_indices. ray_sample mem m offx offy g D i 3 = None"
  proof -
    have "takeWhile (\<lambda>j. ray_sample mem m offx offy g D i j \<noteq> None) [3..max_distance_idx] = []"
      if "i \<in> set angle_indices" for i
      using h that by (simp add: max_distance_idx_eq upto_rec1 [of 3 13])
    then show ?thesis
      unfolding st_def by (intro radial_search_nothing_kept) simp
  qed
  have b: "subgoal_pt = (offx, offy, 0)"
    if h: "candidate_score_list st = replicate 15 0 \<and> candidate_j_list st = replicate 15 0"
  proof -
    obtain p where p: "p < 15" "subgoal_pt = candidate_point offx offy (16 - int p) (candidate_j_list st ! p)"
      using generate_subgoal_search [OF assms(2), of mem s]
      unfolding subgoal_pt_def st_def g_def offx_def offy_def D_def by blast
    then show ?thesis using h by (simp add: candidate_point_zero)
  qed
  have c: "subgoal_pt = (0.44, 0, 0) \<and> \<not> (getX subgoal_pt = 0 \<and> getY subgoal_pt = 0)"
    if h: "candidate_score_list st = replicate 15 0 \<and> candidate_j_list st = replicate 15 0 \<and>
           offx = 0.44 \<and> offy = 0"
    using b h by (simp add: getX_def)
  show ?thesis
    using a b c unfolding Let_def subgoal_pt_def st_def g_def offx_def offy_def D_def by blast
qed

lemma coarse_blocked_first_samples:
  "\<forall>i\<in>set angle_indices. ray_sample ex_memory (coarse_grid 100) 0.44 0 near_goal (1 / 1000) i 3 = None"
  using coarse_blocked_sample [of _ 3] by (simp add: angle_indices_set)

text \<open>On the coarse grid with its cell occupied, every ray ends at its first candidate.\<close>

theorem generate_subgoal_without_safe_cell_witness:
  "grid_ok (coarse_grid 100) \<and>
   finalgoal_out_of_range (coarse_grid 100) (tf_apply (tf_inverse ex_tf) near_goal) \<and>
   list_all (\<lambda>i. ray_sample ex_memory (coarse_grid 100) 0.44 0 near_goal (1 / 1000) i 3 = None)
     angle_indices \<and>
   candidate_score_list (radial_search ex_memory (coarse_grid 100) 0.44 0 near_goal (1 / 1000)) =
     replicate 15 0 \<and>
   candidate_j_list (radial_search ex_memory (coarse_grid 100) 0.44 0 near_goal (1 / 1000)) =
     replicate 15 0 \<and>
   fst (generate_subgoal ex_memory (coarse_grid 100) near_goal ex_tf ex_state) = (0.44, 0, 0) \<and>
   \<not> (getX (fst (generate_subgoal ex_memory (coarse_grid 100) near_goal ex_tf ex_state)) = 0 \<and>
      getY (fst (generate_subgoal ex_memory (coarse_grid 100) near_goal ex_tf ex_state)) = 0)"
  using generate_subgoal_without_safe_cell
      [OF coarse_grid_ok [of 100] near_goal_out_of_range [of 100],
       where s = ex_state and mem = ex_memory]
    coarse_grid_ok [of 100] near_goal_out_of_range [of 100] coarse_blocked_first_samples
  unfolding Let_def near_goal_base_frame near_goal_distance ex_state_offsets list_all_iff
  by blast

subsection \<open>The busy flag between callbacks\<close>

lemma generate_subgoal_frame:
  "flag_planning_busy (snd (generate_subgoal mem m finalgoal tf_base2odom s)) = flag_planning_busy s \<and>
   localmap_ptr (snd (generate_subgoal mem m finalgoal tf_base2odom s)) = localmap_ptr s"
  by (simp add: generate_subgoal_def Let_def)

lemma select_subgoal_frame:
  "flag_planning_busy (snd (select_subgoal mem m finalgoal tf_base2odom tf_odom2base a b c d s)) =
     flag_planning_busy s \<and>
   localmap_ptr (snd (select_subgoal mem m finalgoal tf_base2odom tf_odom2base a b c d s)) =
     localmap_ptr s"
  by (simp add: select_subgoal_def Let_def publish_robot_status_marker_def generate_subgoal_frame)

lemma plan_path_frame:
  "flag_planning_busy (plan_path e m tf_base2odom subgoal_pt s) = flag_planning_busy s \<and>
   localmap_ptr (plan_path e m tf_base2odom subgoal_pt s) = localmap_ptr s"
  by (simp add: plan_path_def Let_def)

text \<open>A timer tick that finds the flag set returns at once; a tick that finds it off returns with
  the flag off, on each of its paths. No path replaces the map.\<close>

lemma timer_cb_frame:
  "flag_planning_busy (timer_cb e s) = flag_planning_busy s \<and>
   localmap_ptr (timer_cb e s) = localmap_ptr s"
  by (simp add: timer_cb_def timer_body_def Let_def publish_robot_status_marker_def plan_path_frame
      select_subgoal_frame split: option.split)

text \<open>A goal assignment sets the flag without testing it and returns with the flag off.\<close>

lemma finalgoal_cb_frame:
  "\<not> flag_planning_busy (finalgoal_cb e goal_msg s) \<and>
   localmap_ptr (finalgoal_cb e goal_msg s) = localmap_ptr s"
  by (simp add: finalgoal_cb_def finalgoal_body_def Let_def publish_robot_status_marker_def generate_subgoal_frame
      split: option.split)

text \<open>A map update replaces the stored map exactly when the flag is off.\<close>

lemma localmap_cb_accepts:
  "localmap_ptr (localmap_cb map_msg s) =
     (if flag_planning_busy s then localmap_ptr s else Some map_msg) \<and>
   flag_planning_busy (localmap_cb map_msg s) = flag_planning_busy s"
  by (simp add: localmap_cb_def)

lemma dispatch_keeps_flag_off:
  "\<not> flag_planning_busy s \<Longrightarrow> \<not> flag_planning_busy (dispatch s ev)"
  by (cases ev)
     (simp_all add: localmap_cb_accepts footprint_cb_def progress_cb_def finalgoal_cb_frame
        timer_cb_frame)

text \<open>The constructor leaves the flag off, and so does every callback: between two callbacks
  the flag is never set. Under the dispatch of \<^verbatim>\<open>ros::spin()\<close> every map update is therefore
  accepted and no timer tick is skipped.\<close>

lemma spin_keeps_flag_off:
  "\<not> flag_planning_busy s \<Longrightarrow> \<not> flag_planning_busy (spin s events)"
  unfolding spin_def
  by (rule foldl_invariant) (simp_all add: dispatch_keeps_flag_off)

subsection \<open>A decision cycle under way\<close>

lemma timer_body_frame:
  "\<not> flag_planning_busy (timer_body e s) \<and> localmap_ptr (timer_body e s) = localmap_ptr s"
  by (simp add: timer_body_def Let_def publish_robot_status_marker_def plan_path_frame
      select_subgoal_frame split: option.split)

lemma finalgoal_body_frame:
  "\<not> flag_planning_busy (finalgoal_body e goal_msg s) \<and>
   localmap_ptr (finalgoal_body e goal_msg s) = localmap_ptr s"
  by (simp add: finalgoal_body_def Let_def publish_robot_status_marker_def generate_subgoal_frame
      split: option.split)

lemma finish_frame:
  "\<not> flag_planning_busy (finish cy s) \<and> localmap_ptr (finish cy s) = localmap_ptr s"
  by (cases cy) (simp_all add: timer_body_frame finalgoal_body_frame)

lemma exec_replaces_map:
  assumes "localmap_ptr (node (exec c st)) \<noteq> localmap_ptr (node c)"
  shows "\<not> flag_planning_busy (node c) \<and>
         (\<exists>map_msg. st = Enter (MapUpdate map_msg) \<and>
            localmap_ptr (node (exec c st)) = Some map_msg)"
proof (cases st)
  case (Enter ev)
  then show ?thesis
    using assms
    by (cases ev)
       (simp_all add: localmap_cb_def footprint_cb_def progress_cb_def split: if_splits)
next
  case Leave
  then show ?thesis
    using assms by (cases "active c") (simp_all add: finish_frame)
qed

lemma exec_enter_sets_flag:
  "active (exec c (Enter ev)) \<noteq> active c \<Longrightarrow> flag_planning_busy (node (exec c (Enter ev)))"
  by (cases ev) (simp_all split: if_splits)

text \<open>A callback served from a configuration without a cycle and with the flag off: either it
  returns in its one step, or it enters a cycle, which is then the only one, and leaves it. Both
  ways it ends without a cycle, with the flag off and with the members \<open>dispatch\<close> computes.\<close>

lemma callback_from_idle:
  assumes "active c = []" and "\<not> flag_planning_busy (node c)"
  shows "(if length (active (exec c (Enter ev))) > length (active c)
          then length (active (exec c (Enter ev))) = 1 \<and>
               flag_planning_busy (node (exec c (Enter ev))) \<and>
               active (exec (exec c (Enter ev)) Leave) = [] \<and>
               \<not> flag_planning_busy (node (exec (exec c (Enter ev)) Leave)) \<and>
               node (exec (exec c (Enter ev)) Leave) = dispatch (node c) ev
          else active (exec c (Enter ev)) = [] \<and>
               \<not> flag_planning_busy (node (exec c (Enter ev))) \<and>
               node (exec c (Enter ev)) = dispatch (node c) ev)"
  using assms
  by (cases ev)
     (simp_all add: localmap_cb_def footprint_cb_def progress_cb_def timer_cb_def finalgoal_cb_def
        timer_body_frame finalgoal_body_frame)

lemma spin_run_from_idle:
  assumes "active c = []" and "\<not> flag_planning_busy (node c)"
  shows "(\<forall>c'\<in>set (spin_run c events).
            length (active c') \<le> 1 \<and> (flag_planning_busy (node c') \<longleftrightarrow> active c' \<noteq> [])) \<and>
         node (last (c # spin_run c events)) = spin (node c) events \<and>
         active (last (c # spin_run c events)) = []"
  using assms
proof (induction events arbitrary: c)
  case Nil
  then show ?case by (simp add: spin_def)
next
  case (Cons ev events)
  let ?c1 = "exec c (Enter ev)"
  let ?c2 = "exec ?c1 Leave"
  note cb = callback_from_idle [OF Cons.prems, of ev]
  show ?case
  proof (cases "length (active ?c1) > length (active c)")
    case True
    have f: "length (active ?c1) = 1" "flag_planning_busy (node ?c1)" "active ?c2 = []"
      "\<not> flag_planning_busy (node ?c2)" "node ?c2 = dispatch (node c) ev"
      using cb [unfolded if_P [OF True]] by blast+
    have run: "spin_run c (ev # events) = ?c1 # ?c2 # spin_run ?c2 events"
      using True by (simp del: exec.simps)
    have l: "last (c # spin_run c (ev # events)) = last (?c2 # spin_run ?c2 events)"
      unfolding run by (simp del: exec.simps)
    have a1: "active ?c1 \<noteq> []" using f(1) by auto
    show ?thesis
      unfolding l unfolding run
      using Cons.IH [OF f(3,4)] f a1 by (simp add: spin_def del: exec.simps)
  next
    case False
    have f: "active ?c1 = []" "\<not> flag_planning_busy (node ?c1)"
      "node ?c1 = dispatch (node c) ev"
      using cb [unfolded if_not_P [OF False]] by blast+
    have run: "spin_run c (ev # events) = ?c1 # spin_run ?c1 events"
      using False by (simp del: exec.simps)
    have l: "last (c # spin_run c (ev # events)) = last (?c1 # spin_run ?c1 events)"
      unfolding run by (simp del: exec.simps)
    show ?thesis
      unfolding l unfolding run
      using Cons.IH [OF f(1,2)] f by (simp add: spin_def del: exec.simps)
  qed
qed

text \<open>
  Claim C4. A step replaces the stored map only if it is the entry of \<^verbatim>\<open>localmap_cb\<close> and
  finds the busy flag off. A step after which one more cycle is under way has set the flag, and
  the rest of a cycle, of the timer or of a goal assignment, returns with the flag off from
  every state, whichever of its paths it takes. In a run of \<^verbatim>\<open>ros::spin()\<close> that starts without
  a cycle and with the flag off, as the constructor leaves the node, at most one cycle is under
  way after every step, the flag is set exactly while one is, and while one is no step
  whatever, served next or not, replaces the map. The run ends without a cycle, in the state
  that \<open>spin\<close> computes with whole callbacks.
\<close>

theorem busy_flag_guards_decision_cycle:
  assumes "active c0 = []" and "\<not> flag_planning_busy (node c0)"
  shows "(\<forall>c st. localmap_ptr (node (exec c st)) \<noteq> localmap_ptr (node c) \<longrightarrow>
            \<not> flag_planning_busy (node c) \<and>
            (\<exists>map_msg. st = Enter (MapUpdate map_msg) \<and>
               localmap_ptr (node (exec c st)) = Some map_msg)) \<and>
         (\<forall>c ev. active (exec c (Enter ev)) \<noteq> active c \<longrightarrow>
            flag_planning_busy (node (exec c (Enter ev)))) \<and>
         (\<forall>cy s. \<not> flag_planning_busy (finish cy s)) \<and>
         (\<forall>c\<in>set (spin_run c0 events).
            length (active c) \<le> 1 \<and>
            (flag_planning_busy (node c) \<longleftrightarrow> active c \<noteq> []) \<and>
            (active c \<noteq> [] \<longrightarrow>
               (\<forall>st. localmap_ptr (node (exec c st)) = localmap_ptr (node c)))) \<and>
         node (last (c0 # spin_run c0 events)) = spin (node c0) events \<and>
         active (last (c0 # spin_run c0 events)) = []"
proof -
  note run = spin_run_from_idle [OF assms, of events]
  have a: "\<forall>c st. localmap_ptr (node (exec c st)) \<noteq> localmap_ptr (node c) \<longrightarrow>
            \<not> flag_planning_busy (node c) \<and>
            (\<exists>map_msg. st = Enter (MapUpdate map_msg) \<and>
               localmap_ptr (node (exec c st)) = Some map_msg)"
    using exec_replaces_map by blast
  have b: "\<forall>c ev. active (exec c (Enter ev)) \<noteq> active c \<longrightarrow>
            flag_planning_busy (node (exec c (Enter ev)))"
    using exec_enter_sets_flag by blast
  have c: "\<forall>cy s. \<not> flag_planning_busy (finish cy s)"
    using finish_frame by blast
  have d: "\<forall>c\<in>set (spin_run c0 events).
            length (active c) \<le> 1 \<and>
            (flag_planning_busy (node c) \<longleftrightarrow> active c \<noteq> []) \<and>
            (active c \<noteq> [] \<longrightarrow>
               (\<forall>st. localmap_ptr (node (exec c st)) = localmap_ptr (node c)))"
  proof
    fix c assume "c \<in> set (spin_run c0 events)"
    then have i: "length (active c) \<le> 1" "flag_planning_busy (node c) \<longleftrightarrow> active c \<noteq> []"
      using run by blast+
    have "\<forall>st. localmap_ptr (node (exec c st)) = localmap_ptr (node c)" if "active c \<noteq> []"
      using that i(2) exec_replaces_map [of c] by blast
    then show "length (active c) \<le> 1 \<and>
            (flag_planning_busy (node c) \<longleftrightarrow> active c \<noteq> []) \<and>
            (active c \<noteq> [] \<longrightarrow>
               (\<forall>st. localmap_ptr (node (exec c st)) = localmap_ptr (node c)))"
      using i by blast
  qed
  show ?thesis
    using a b c d run by blast
qed

lemma ex_run_cycles:
  "map (\<lambda>c. length (active c)) (spin_run ex_config ex_events) = [0, 0, 1, 0, 0]"
  by (simp add: ex_events_def ex_config_def ex_state_def localmap_cb_def progress_cb_def
      timer_body_frame)

lemma ex_run_flags:
  "map (\<lambda>c. flag_planning_busy (node c)) (spin_run ex_config ex_events) =
     [False, False, True, False, False]"
  by (simp add: ex_events_def ex_config_def ex_state_def localmap_cb_def progress_cb_def
      timer_body_frame)

lemma ex_run_maps:
  "map (\<lambda>c. localmap_ptr (node c)) (spin_run ex_config ex_events) =
     [Some ex_grid, Some ex_grid, Some ex_grid, Some ex_grid, Some ex_free_grid]"
  by (simp add: ex_events_def ex_config_def ex_state_def localmap_cb_def progress_cb_def
      timer_body_frame)

text \<open>In the example run the cycle of the timer is under way after the third step, with the
  flag set; a map that came then would be refused; the map that comes after the return is
  accepted.\<close>

theorem busy_flag_guards_decision_cycle_witness:
  "active ex_config = [] \<and> \<not> flag_planning_busy (node ex_config) \<and>
   map (\<lambda>c. length (active c)) (spin_run ex_config ex_events) = [0, 0, 1, 0, 0] \<and>
   map (\<lambda>c. flag_planning_busy (node c)) (spin_run ex_config ex_events) =
     [False, False, True, False, False] \<and>
   map (\<lambda>c. localmap_ptr (node c)) (spin_run ex_config ex_events) =
     [Some ex_grid, Some ex_grid, Some ex_grid, Some ex_grid, Some ex_free_grid] \<and>
   localmap_ptr (node (exec (spin_run ex_config ex_events ! 2) (Enter (MapUpdate ex_free_grid)))) =
     Some ex_grid \<and>
   node (last (ex_config # spin_run ex_config ex_events)) = spin ex_state ex_events \<and>
   active (last (ex_config # spin_run ex_config ex_events)) = []"
proof -
  let ?run = "spin_run ex_config ex_events"
  have h: "active ex_config = []" "\<not> flag_planning_busy (node ex_config)"
    by (simp_all add: ex_config_def ex_state_def)
  have n: "node ex_config = ex_state" by (simp add: ex_config_def)
  have len: "length ?run = 5"
    using arg_cong [OF ex_run_cycles, of length] by simp
  then have mem: "?run ! 2 \<in> set ?run" by (intro nth_mem) simp
  have "length (active (?run ! 2)) = map (\<lambda>c. length (active c)) ?run ! 2"
    using len by simp
  then have act: "active (?run ! 2) \<noteq> []" unfolding ex_run_cycles by auto
  have "localmap_ptr (node (?run ! 2)) = map (\<lambda>c. localmap_ptr (node c)) ?run ! 2"
    using len by simp
  then have before: "localmap_ptr (node (?run ! 2)) = Some ex_grid" unfolding ex_run_maps by simp
  note guard = busy_flag_guards_decision_cycle [OF h, of ex_events]
  have "\<forall>st. localmap_ptr (node (exec (?run ! 2) st)) = localmap_ptr (node (?run ! 2))"
    using guard mem act by blast
  then have refused:
    "localmap_ptr (node (exec (?run ! 2) (Enter (MapUpdate ex_free_grid)))) = Some ex_grid"
    unfolding before by blast
  have fin: "node (last (ex_config # ?run)) = spin ex_state ex_events"
    "active (last (ex_config # ?run)) = []"
    using guard unfolding n by blast+
  show ?thesis
    using h ex_run_cycles ex_run_flags ex_run_maps refused fin by blast
qed

end
